theory Spec2Isabelle
  imports Main "HOL-Library.Sublist"
begin

section \<open>Python strings\<close>

text \<open>
  A Python \<open>str\<close> is a \<^typ>\<open>string\<close>; the functions below cover the ASCII range.
  The test \<open>a in b\<close> on two strings is \<^const>\<open>sublist\<close> (a contiguous run).
\<close>

definition ascii_uppercase :: string where
  "ascii_uppercase = ''ABCDEFGHIJKLMNOPQRSTUVWXYZ''"

definition ascii_lowercase :: string where
  "ascii_lowercase = ''abcdefghijklmnopqrstuvwxyz''"

definition lower_char :: "char \<Rightarrow> char" where
  "lower_char c =
     (case map_of (zip ascii_uppercase ascii_lowercase) c of None \<Rightarrow> c | Some d \<Rightarrow> d)"

definition lower :: "string \<Rightarrow> string" where
  "lower s = map lower_char s"

definition is_space :: "char \<Rightarrow> bool" where
  "is_space c \<longleftrightarrow>
     c \<in> set [CHR 0x09, CHR 0x0A, CHR 0x0B, CHR 0x0C, CHR 0x0D,
              CHR 0x1C, CHR 0x1D, CHR 0x1E, CHR 0x1F, CHR 0x20]"

definition strip :: "string \<Rightarrow> string" where
  "strip s = rev (dropWhile is_space (rev (dropWhile is_space s)))"

fun join :: "string \<Rightarrow> string list \<Rightarrow> string" where
  "join sep [] = []"
| "join sep [x] = x"
| "join sep (x # y # ys) = x @ sep @ join sep (y # ys)"

definition newline :: string where
  "newline = [CHR 0x0A]"

text \<open>\<open>str(n)\<close> for a natural number, and the two-digit form of \<open>%d\<close>, \<open>%H\<close>, \<open>%M\<close>.\<close>

definition digit_char :: "nat \<Rightarrow> char" where
  "digit_char d = ''0123456789'' ! (d mod 10)"

fun str_nat :: "nat \<Rightarrow> string" where
  "str_nat n = (if n < 10 then [digit_char n] else str_nat (n div 10) @ [digit_char n])"

declare str_nat.simps [simp del]

definition pad2 :: "nat \<Rightarrow> string" where
  "pad2 n = (if n < 10 then ''0'' @ str_nat n else str_nat n)"

text \<open>Truth value of a \<open>str | None\<close>, and \<open>a or b\<close> on two of them.\<close>

fun truthy :: "string option \<Rightarrow> bool" where
  "truthy None = False"
| "truthy (Some s) = (s \<noteq> [])"

definition py_or :: "string option \<Rightarrow> string option \<Rightarrow> string option" where
  "py_or a b = (if truthy a then a else b)"


section \<open>The conversation state (main\_graph.py)\<close>

datatype stage =
  Greeting | Information_confirmation | Patient_lookup | Find_slots
  | Selection_parser | Confirmation | Email_collection | Completed

text \<open>The position of a stage in the order of the stage list.\<close>

fun stage_rank :: "stage \<Rightarrow> nat" where
  "stage_rank Greeting = 0"
| "stage_rank Information_confirmation = 1"
| "stage_rank Patient_lookup = 2"
| "stage_rank Find_slots = 3"
| "stage_rank Selection_parser = 4"
| "stage_rank Confirmation = 5"
| "stage_rank Email_collection = 6"
| "stage_rank Completed = 7"

record message =
  role :: string
  content :: string

definition user_msg :: "string \<Rightarrow> message" where
  "user_msg c = \<lparr>role = ''user'', content = c\<rparr>"

definition assistant_msg :: "string \<Rightarrow> message" where
  "assistant_msg c = \<lparr>role = ''assistant'', content = c\<rparr>"

record PatientInfo =
  full_name :: "string option"
  date_of_birth :: "string option"
  preferred_doctor :: "string option"
  preferred_location :: "string option"

text \<open>
  \<open>AgentState\<close> is a \<open>TypedDict\<close> with \<open>total=False\<close>: a key that is absent is
  \<^const>\<open>None\<close> here (no handler stores \<open>None\<close> under a key), so \<open>state[key]\<close> on it is a
  \<open>KeyError\<close>. The caller (app.py) always supplies \<open>messages\<close>.
\<close>

record AgentState =
  messages :: "message list"
  patient_info :: "PatientInfo option"
  patient_id :: "string option"
  is_new_patient :: "bool option"
  available_slots :: "string list option"
  chosen_slot :: "string option"
  appointment_id :: "string option"
  patient_email :: "string option"
  conversation_stage :: "stage option"

datatype py_error = KeyError | TypeError | ValueError | OSError | PatientNotFoundError


section \<open>The greeting agent (agents/greeting\_agent.py)\<close>

text \<open>
  The reply of the extraction oracle is a JSON object read with \<open>data.get(key)\<close>: a map
  from key to text, \<^const>\<open>None\<close> for a key that is missing or null.
\<close>

type_synonym raw_reply = "string \<rightharpoonup> string"

definition normalize_and_validate_patient_info :: "raw_reply \<Rightarrow> PatientInfo" where
  "normalize_and_validate_patient_info data =
     \<lparr>full_name = py_or (py_or (data ''fullName'') (data ''full_name'')) (data ''name''),
      date_of_birth = py_or (py_or (data ''dateOfBirth'') (data ''date_of_birth'')) (data ''dob''),
      preferred_doctor =
        py_or (py_or (data ''preferredDoctor'') (data ''preferred_doctor'')) (data ''doctor''),
      preferred_location =
        py_or (py_or (data ''preferredLocation'') (data ''preferred_location''))
          (data ''location'')\<rparr>"

definition info_line :: "string \<Rightarrow> string option \<Rightarrow> string list" where
  "info_line label v = (case v of Some s \<Rightarrow> (if s \<noteq> [] then [label @ s] else []) | None \<Rightarrow> [])"

definition format_patient_info_for_confirmation :: "PatientInfo \<Rightarrow> string" where
  "format_patient_info_for_confirmation p =
     join newline
       (info_line ''**Name:** '' (full_name p)
        @ info_line ''**Date of Birth:** '' (date_of_birth p)
        @ info_line ''**Preferred Doctor:** '' (preferred_doctor p)
        @ info_line ''**Preferred Location:** '' (preferred_location p))"

definition missing_fields :: "PatientInfo \<Rightarrow> string list" where
  "missing_fields p =
     (if \<not> truthy (full_name p) then [''your full name''] else [])
     @ (if \<not> truthy (date_of_birth p) then [''your date of birth''] else [])
     @ (if \<not> truthy (preferred_doctor p) then [''your preferred doctor''] else [])
     @ (if \<not> truthy (preferred_location p) then [''your preferred location''] else [])"

definition please_provide :: string where
  "please_provide = ''. Could you please provide that information?''"

definition get_missing_info_message :: "PatientInfo \<Rightarrow> string option" where
  "get_missing_info_message p =
     (let mf = missing_fields p in
      if length mf = 0 then None
      else if length mf = 1 then Some (''I still need '' @ mf ! 0 @ please_provide)
      else if length mf = 2 then
        Some (''I still need '' @ mf ! 0 @ '' and '' @ mf ! 1 @ please_provide)
      else
        Some (''I still need '' @ (join '', '' (butlast mf) @ '', and '' @ last mf)
              @ please_provide))"

definition is_patient_info_complete :: "PatientInfo \<Rightarrow> bool" where
  "is_patient_info_complete p \<longleftrightarrow>
     truthy (full_name p) \<and> truthy (date_of_birth p)
     \<and> truthy (preferred_doctor p) \<and> truthy (preferred_location p)"



section \<open>The router and the first two node handlers (main\_graph.py)\<close>

text \<open>
  The reply of an oracle (\<open>chain.invoke\<close>) is an argument of the handler that asks for it:
  every handler is a function of the state and of what the outside world answers.
\<close>

datatype route = Goto stage | END

definition route_conversation :: "AgentState \<Rightarrow> route" where
  "route_conversation state =
     (let stage = (case conversation_stage state of None \<Rightarrow> Greeting | Some st \<Rightarrow> st) in
      if stage = Find_slots then Goto Find_slots
      else if messages state \<noteq> [] \<and> role (last (messages state)) = ''assistant'' then END
      else Goto stage)"

text \<open>\<open>router_map\<close>: the node that runs next; \<open>completed\<close> and \<open>END\<close> end the run.\<close>

fun router_map :: "route \<Rightarrow> stage option" where
  "router_map END = None"
| "router_map (Goto Completed) = None"
| "router_map (Goto st) = Some st"

definition bullet :: string where
  "bullet = [CHR 0xE2, CHR 0x80, CHR 0x9A, CHR 0xC3, CHR 0x84, CHR 0xC2, CHR 0xA2]"

definition greeting_text :: string where
  "greeting_text =
     ''Hello! I'm here to help you schedule a medical appointment. ''
     @ ''To get started, please provide me with the following information:''
     @ newline @ newline @ bullet @ '' Your full name''
     @ newline @ bullet @ '' Your date of birth''
     @ newline @ bullet @ '' Your preferred doctor''
     @ newline @ bullet @ '' Your preferred location''
     @ newline @ newline
     @ ''You can provide all this information at once or we can go through it step by step.''"

text \<open>The merge of greeting\_node: \<open>new or old\<close>, field by field.\<close>

definition updated_info :: "PatientInfo \<Rightarrow> PatientInfo \<Rightarrow> PatientInfo" where
  "updated_info existing_info new_info =
     \<lparr>full_name = py_or (full_name new_info) (full_name existing_info),
      date_of_birth = py_or (date_of_birth new_info) (date_of_birth existing_info),
      preferred_doctor = py_or (preferred_doctor new_info) (preferred_doctor existing_info),
      preferred_location =
        py_or (preferred_location new_info) (preferred_location existing_info)\<rparr>"

definition store_patient_info :: "PatientInfo option \<Rightarrow> PatientInfo \<Rightarrow> PatientInfo" where
  "store_patient_info old new_info =
     (case old of Some existing_info \<Rightarrow> updated_info existing_info new_info
      | None \<Rightarrow> new_info)"

text \<open>
  \<open>get_missing_info_message\<close> returns \<open>None\<close> only for a complete record, which the
  handler has excluded where it asks for the message; the text \<open>None\<close> stands in that
  branch for the value Python would store.
\<close>

definition greeting_node :: "raw_reply \<Rightarrow> AgentState \<Rightarrow> AgentState" where
  "greeting_node raw_info state =
     (if length (messages state) = 1 \<and> patient_info state = None then
        state\<lparr>messages := messages state @ [assistant_msg greeting_text],
              conversation_stage := Some Greeting\<rparr>
      else
        let info = store_patient_info (patient_info state)
                     (normalize_and_validate_patient_info raw_info);
            state1 = state\<lparr>patient_info := Some info\<rparr>
        in if is_patient_info_complete info then
             state1\<lparr>conversation_stage := Some Information_confirmation\<rparr>
           else
             state1\<lparr>messages := messages state1 @
                       [assistant_msg (case get_missing_info_message info of
                                         Some missing_msg \<Rightarrow> missing_msg | None \<Rightarrow> ''None'')],
                     conversation_stage := Some Greeting\<rparr>)"

definition last_user_content :: "message list \<Rightarrow> string option" where
  "last_user_content ms = map_option content (find (\<lambda>msg. role msg = ''user'') (rev ms))"

definition affirmative_words :: "string list" where
  "affirmative_words = [''yes'', ''correct'', ''right'', ''confirm'', ''looks good'']"

definition negative_words :: "string list" where
  "negative_words = [''no'', ''wrong'', ''incorrect'', ''change'', ''update'']"

text \<open>\<open>last_user_message and any(word in last_user_message for word in words)\<close>\<close>

definition any_word_in :: "string list \<Rightarrow> string option \<Rightarrow> bool" where
  "any_word_in ws last_user_message =
     (case last_user_message of None \<Rightarrow> False
      | Some m \<Rightarrow> m \<noteq> [] \<and> list_ex (\<lambda>word. sublist word m) ws)"

definition update_text :: string where
  "update_text =
     ''No problem! Please tell me what information you'd like to update, ''
     @ ''and I'll make the changes.''"

definition summary_text :: "PatientInfo \<Rightarrow> string" where
  "summary_text p =
     ''Thank you! Let me confirm the information you've provided:'' @ newline @ newline
     @ format_patient_info_for_confirmation p @ newline @ newline
     @ ''Is this information correct? Please say 'yes' to confirm or 'no' ''
     @ ''if you need to make any changes.''"

definition information_confirmation_node :: "AgentState \<Rightarrow> py_error + AgentState" where
  "information_confirmation_node state =
     (let last_user_message =
            map_option (\<lambda>c. strip (lower c)) (last_user_content (messages state))
      in if any_word_in affirmative_words last_user_message then
           Inr (state\<lparr>conversation_stage := Some Patient_lookup\<rparr>)
         else if any_word_in negative_words last_user_message then
           Inr (state\<lparr>messages := messages state @ [assistant_msg update_text],
                      conversation_stage := Some Greeting\<rparr>)
         else
           (case patient_info state of
              None \<Rightarrow> Inl KeyError
            | Some p \<Rightarrow>
                Inr (state\<lparr>messages := messages state @ [assistant_msg (summary_text p)],
                           conversation_stage := Some Information_confirmation\<rparr>)))"


section \<open>Dates and times\<close>

text \<open>
  A \<open>datetime\<close> (and a pandas \<open>Timestamp\<close> read from the files) is the number of
  microseconds since 1970-01-01 00:00:00, without a time zone. \<open>strftime\<close> is spelled
  out for the formats the tools use, with the English names of the C locale.
\<close>

type_synonym timestamp = int

definition minutes :: "int \<Rightarrow> int" where
  "minutes m = m * 60000000"

definition days :: "int \<Rightarrow> int" where
  "days d = d * 86400000000"

definition day_number :: "timestamp \<Rightarrow> int" where
  "day_number t = t div 86400000000"

definition second_of_day :: "timestamp \<Rightarrow> int" where
  "second_of_day t = (t div 1000000) mod 86400"

definition hour :: "timestamp \<Rightarrow> nat" where
  "hour t = nat (second_of_day t div 3600)"

definition minute :: "timestamp \<Rightarrow> nat" where
  "minute t = nat ((second_of_day t div 60) mod 60)"

definition second :: "timestamp \<Rightarrow> nat" where
  "second t = nat (second_of_day t mod 60)"

text \<open>Year, month and day of a day number (proleptic Gregorian calendar).\<close>

definition civil_from_days :: "int \<Rightarrow> int \<times> nat \<times> nat" where
  "civil_from_days z0 =
     (let z = z0 + 719468;
          era = z div 146097;
          doe = z - era * 146097;
          yoe = (doe - doe div 1460 + doe div 36524 - doe div 146096) div 365;
          doy = doe - (365 * yoe + yoe div 4 - yoe div 100);
          mp = (5 * doy + 2) div 153;
          d = doy - (153 * mp + 2) div 5 + 1;
          m = (if mp < 10 then mp + 3 else mp - 9);
          y = yoe + era * 400 + (if m \<le> 2 then 1 else 0)
      in (y, nat m, nat d))"

definition year :: "timestamp \<Rightarrow> int" where
  "year t = fst (civil_from_days (day_number t))"

definition month :: "timestamp \<Rightarrow> nat" where
  "month t = fst (snd (civil_from_days (day_number t)))"

definition day :: "timestamp \<Rightarrow> nat" where
  "day t = snd (snd (civil_from_days (day_number t)))"

definition day_names :: "string list" where
  "day_names =
     [''Monday'', ''Tuesday'', ''Wednesday'', ''Thursday'', ''Friday'', ''Saturday'', ''Sunday'']"

definition month_names :: "string list" where
  "month_names =
     [''January'', ''February'', ''March'', ''April'', ''May'', ''June'', ''July'', ''August'',
      ''September'', ''October'', ''November'', ''December'']"

text \<open>1970-01-01 was a Thursday.\<close>

definition weekday :: "timestamp \<Rightarrow> nat" where
  "weekday t = nat ((day_number t + 3) mod 7)"

text \<open>\<open>%A, %B %d\<close>\<close>

definition strftime_A_B_d :: "timestamp \<Rightarrow> string" where
  "strftime_A_B_d t =
     day_names ! weekday t @ '', '' @ month_names ! (month t - 1) @ '' '' @ pad2 (day t)"

text \<open>\<open>%I:%M %p\<close>\<close>

definition strftime_I_M_p :: "timestamp \<Rightarrow> string" where
  "strftime_I_M_p t =
     pad2 (if hour t mod 12 = 0 then 12 else hour t mod 12) @ '':'' @ pad2 (minute t)
     @ '' '' @ (if hour t < 12 then ''AM'' else ''PM'')"

text \<open>\<open>%Y-%m-%d\<close>, \<open>%H:%M:%S\<close> and \<open>%Y%m%d%H%M%S\<close>\<close>

definition strftime_Y_m_d :: "timestamp \<Rightarrow> string" where
  "strftime_Y_m_d t = str_nat (nat (year t)) @ ''-'' @ pad2 (month t) @ ''-'' @ pad2 (day t)"

definition strftime_H_M_S :: "timestamp \<Rightarrow> string" where
  "strftime_H_M_S t = pad2 (hour t) @ '':'' @ pad2 (minute t) @ '':'' @ pad2 (second t)"

definition strftime_YmdHMS :: "timestamp \<Rightarrow> string" where
  "strftime_YmdHMS t =
     str_nat (nat (year t)) @ pad2 (month t) @ pad2 (day t)
     @ pad2 (hour t) @ pad2 (minute t) @ pad2 (second t)"


section \<open>The calendar tool (tools/calendar\_tools.py)\<close>

text \<open>
  A row of the schedule with the two columns the constructor adds, a row of the
  appointments file, and the tool itself. The appointments file is \<^const>\<open>None\<close> when it
  does not exist. \<open>pd.to_datetime\<close> belongs to pandas and is an argument: it returns
  \<^const>\<open>None\<close> where pandas raises.
\<close>

record schedule_row =
  doctor_name :: string
  start_datetime :: timestamp
  end_datetime :: timestamp

record appointment_row =
  row_appointment_id :: string
  row_patient_id :: string
  row_doctor_name :: string
  appointment_date :: string
  appointment_time :: string
  row_is_new_patient :: bool
  status :: string

record durations =
  new_patient :: int
  returning_patient :: int

record CalendarTools =
  df :: "schedule_row list"
  appointment_durations :: durations
  booked_slots :: "timestamp set"

text \<open>The loop of \<open>_load_booked_slots\<close>: an exception ends it and keeps what was added.\<close>

fun add_booked ::
  "(string \<Rightarrow> timestamp option) \<Rightarrow> appointment_row list \<Rightarrow> timestamp set \<Rightarrow> timestamp set"
where
  "add_booked to_datetime [] booked = booked"
| "add_booked to_datetime (row # rows) booked =
     (case to_datetime (appointment_date row @ '' '' @ appointment_time row) of
        None \<Rightarrow> booked
      | Some booked_time \<Rightarrow> add_booked to_datetime rows (insert booked_time booked))"

definition load_booked_slots ::
  "(string \<Rightarrow> timestamp option) \<Rightarrow> appointment_row list option \<Rightarrow> CalendarTools
   \<Rightarrow> CalendarTools"
where
  "load_booked_slots to_datetime appointments_file cal =
     cal\<lparr>booked_slots :=
           (case appointments_file of None \<Rightarrow> {}
            | Some rows \<Rightarrow> add_booked to_datetime rows {})\<rparr>"

definition formatted_slot :: "string \<Rightarrow> timestamp \<Rightarrow> string" where
  "formatted_slot doctor slot_start =
     doctor @ '' on '' @ strftime_A_B_d slot_start @ '' at '' @ strftime_I_M_p slot_start"

text \<open>
  The \<open>while\<close> loop over one block. It does not end when the duration is not positive
  and the first slot fits, so its result is an option.
\<close>

partial_function (option) slot_loop ::
  "int \<Rightarrow> timestamp set \<Rightarrow> string \<Rightarrow> timestamp \<Rightarrow> timestamp \<Rightarrow> string list
   \<Rightarrow> string list option"
where
  "slot_loop appointment_duration booked doctor block_end slot_start available =
     (if slot_start + appointment_duration \<le> block_end then
        slot_loop appointment_duration booked doctor block_end
          (slot_start + appointment_duration)
          (if slot_start \<notin> booked then available @ [formatted_slot doctor slot_start]
           else available)
      else Some available)"

declare slot_loop.simps [code]

text \<open>The \<open>for\<close> loop over the rows of the schedule.\<close>

fun rows_loop ::
  "int \<Rightarrow> timestamp set \<Rightarrow> schedule_row list \<Rightarrow> string list \<Rightarrow> string list option"
where
  "rows_loop appointment_duration booked [] available = Some available"
| "rows_loop appointment_duration booked (row # rows) available =
     (case slot_loop appointment_duration booked (doctor_name row) (end_datetime row)
             (start_datetime row) available of
        None \<Rightarrow> None
      | Some available' \<Rightarrow> rows_loop appointment_duration booked rows available')"

definition find_available_slots ::
  "CalendarTools \<Rightarrow> bool \<Rightarrow> timestamp \<Rightarrow> timestamp \<Rightarrow> string list option"
where
  "find_available_slots cal is_new start_date end_date =
     (let duration_minutes =
            (if is_new then new_patient (appointment_durations cal)
             else returning_patient (appointment_durations cal));
          appointment_duration = minutes duration_minutes;
          relevant_schedule =
            filter (\<lambda>row. start_datetime row \<ge> start_date \<and> start_datetime row < end_date)
              (df cal)
      in rows_loop appointment_duration (booked_slots cal) relevant_schedule [])"


section \<open>The patient database (tools/database\_tools.py, agents/patient\_lookup\_agent.py)\<close>

text \<open>
  \<open>process.extractOne\<close> belongs to the library thefuzz. Its scorer (a similarity from 0
  to 100) is an argument; the function returns the first choice of the highest score
  among those that score at least \<open>score_cutoff\<close>.
\<close>

definition extractOne ::
  "(string \<Rightarrow> string \<Rightarrow> nat) \<Rightarrow> string \<Rightarrow> string list \<Rightarrow> nat \<Rightarrow> (string \<times> nat) option"
where
  "extractOne scorer query choices score_cutoff =
     (case filter (\<lambda>m. snd m \<ge> score_cutoff) (map (\<lambda>c. (c, scorer query c)) choices) of
        [] \<Rightarrow> None
      | m # ms \<Rightarrow> Some (fold (\<lambda>x best. if snd x > snd best then x else best) ms m))"

record patient_row =
  patient_id_col :: string
  first_name :: string
  last_name :: string
  date_of_birth_col :: string
  visit_history :: int

definition row_full_name :: "patient_row \<Rightarrow> string" where
  "row_full_name r = first_name r @ '' '' @ last_name r"

text \<open>The data frame is the list of its rows; it is empty when the file is missing.\<close>

definition search_patient ::
  "(string \<Rightarrow> string \<Rightarrow> nat) \<Rightarrow> patient_row list \<Rightarrow> string \<Rightarrow> string \<Rightarrow> patient_row option"
where
  "search_patient scorer patients name dob =
     (if patients = [] then None
      else
        let names = map row_full_name patients;
            best_match = extractOne scorer name names 80
        in case best_match of
             None \<Rightarrow> None
           | Some (matched_name, score) \<Rightarrow>
               (case filter (\<lambda>r. row_full_name r = matched_name \<and> date_of_birth_col r = dob)
                       patients of
                  [] \<Rightarrow> None
                | r # rs \<Rightarrow> Some r))"

definition is_returning_patient :: "patient_row list \<Rightarrow> string \<Rightarrow> bool" where
  "is_returning_patient patients pid =
     (if patients = [] then False
      else case filter (\<lambda>r. patient_id_col r = pid) patients of
             [] \<Rightarrow> False
           | r # rs \<Rightarrow> visit_history r > 0)"

text \<open>The result holds the keys \<open>patient_id\<close> and \<open>is_new_patient\<close> (and the record found).\<close>

definition lookup_patient ::
  "(string \<Rightarrow> string \<Rightarrow> nat) \<Rightarrow> patient_row list \<Rightarrow> string \<Rightarrow> string
   \<Rightarrow> py_error + (string \<times> bool)"
where
  "lookup_patient scorer patients patient_name patient_dob =
     (case search_patient scorer patients patient_name patient_dob of
        Some patient_record \<Rightarrow>
          (let pid = patient_id_col patient_record;
               is_returning = is_returning_patient patients pid
           in Inr (pid, \<not> is_returning))
      | None \<Rightarrow> Inl PatientNotFoundError)"


section \<open>The booking writer (tools/export\_tools.py)\<close>

text \<open>
  \<open>re.search(r"(Dr\. .+?) on (.+?) at (.+)", s)\<close>, as the backtracking matcher runs it:
  the leftmost start, each lazy group as short as the rest of the pattern allows, the
  last group as long as the line goes on. A dot matches every character but a newline.
\<close>

definition dot :: "char \<Rightarrow> bool" where
  "dot c \<longleftrightarrow> c \<noteq> CHR 0x0A"

definition greedy_group :: "string \<Rightarrow> string option" where
  "greedy_group s = (let g = takeWhile dot s in if g = [] then None else Some g)"

fun lazy_group ::
  "string \<Rightarrow> (string \<Rightarrow> 'a option) \<Rightarrow> string \<Rightarrow> string \<Rightarrow> (string \<times> 'a) option"
where
  "lazy_group lit rest g [] = None"
| "lazy_group lit rest g (c # cs) =
     (if \<not> dot c then None
      else case (if prefix lit cs then rest (drop (length lit) cs) else None) of
             Some r \<Rightarrow> Some (g @ [c], r)
           | None \<Rightarrow> lazy_group lit rest (g @ [c]) cs)"

definition match_here :: "string \<Rightarrow> (string \<times> string \<times> string) option" where
  "match_here s =
     (if prefix ''Dr. '' s then
        (case lazy_group '' on '' (lazy_group '' at '' greedy_group []) [] (drop 4 s) of
           Some (g1, g2, g3) \<Rightarrow> Some (''Dr. '' @ g1, g2, g3)
         | None \<Rightarrow> None)
      else None)"

fun re_search :: "string \<Rightarrow> (string \<times> string \<times> string) option" where
  "re_search [] = None"
| "re_search (c # cs) =
     (case match_here (c # cs) of Some m \<Rightarrow> Some m | None \<Rightarrow> re_search cs)"

record parsed_slot =
  parsed_doctor_name :: string
  parsed_appointment_date :: string
  parsed_appointment_time :: string

definition slot_format :: string where
  "slot_format = ''%A, %B %d, %Y %I:%M %p''"

text \<open>
  \<open>_parse_slot_string\<close>; \<^const>\<open>None\<close> is the empty dictionary it returns after any
  exception. \<open>datetime.strptime\<close> is an argument (\<^const>\<open>None\<close> where it raises), and so
  is the clock.
\<close>

definition parse_slot_string ::
  "(string \<Rightarrow> string \<Rightarrow> timestamp option) \<Rightarrow> timestamp \<Rightarrow> string \<Rightarrow> parsed_slot option"
where
  "parse_slot_string strptime now slot_string =
     (case re_search slot_string of
        None \<Rightarrow> None
      | Some (g1, g2, g3) \<Rightarrow>
          (let doctor = strip g1;
               date_str = strip g2;
               time_str = strip g3;
               full_date_str = date_str @ '', '' @ str_nat (nat (year now))
           in case strptime (full_date_str @ '' '' @ time_str) slot_format of
                None \<Rightarrow> None
              | Some dt_object \<Rightarrow>
                  Some \<lparr>parsed_doctor_name = doctor,
                        parsed_appointment_date = strftime_Y_m_d dt_object,
                        parsed_appointment_time = strftime_H_M_S dt_object\<rparr>))"

text \<open>\<open>patient_id[-4:]\<close>\<close>

definition last4 :: "string \<Rightarrow> string" where
  "last4 s = drop (length s - 4) s"

text \<open>
  \<open>book_appointment\<close> returns the identifier and the appointments file with the new row
  appended (\<open>to_csv\<close> in mode \<open>a\<close> creates a missing file); \<open>write_ok\<close> says whether the
  write succeeds.
\<close>

definition book_appointment ::
  "(string \<Rightarrow> string \<Rightarrow> timestamp option) \<Rightarrow> timestamp \<Rightarrow> bool \<Rightarrow> appointment_row list option
   \<Rightarrow> string \<Rightarrow> string \<Rightarrow> bool \<Rightarrow> py_error + (string \<times> appointment_row list option)"
where
  "book_appointment strptime now write_ok appointments_file pid slot is_new =
     (case parse_slot_string strptime now slot of
        None \<Rightarrow> Inl ValueError
      | Some parsed \<Rightarrow>
          (let timestamp = strftime_YmdHMS now;
               new_id = ''APP'' @ timestamp @ last4 pid;
               new_appointment =
                 \<lparr>row_appointment_id = new_id,
                  row_patient_id = pid,
                  row_doctor_name = parsed_doctor_name parsed,
                  appointment_date = parsed_appointment_date parsed,
                  appointment_time = parsed_appointment_time parsed,
                  row_is_new_patient = is_new,
                  status = ''Confirmed''\<rparr>
           in if write_ok then
                Inr (new_id,
                     Some ((case appointments_file of None \<Rightarrow> [] | Some rows \<Rightarrow> rows)
                           @ [new_appointment]))
              else Inl OSError))"


section \<open>The other node handlers (main\_graph.py)\<close>

text \<open>A \<open>str | None\<close> inside an f-string.\<close>

definition str_opt :: "string option \<Rightarrow> string" where
  "str_opt v = (case v of None \<Rightarrow> ''None'' | Some s \<Rightarrow> s)"

definition doctor_at_location :: "PatientInfo \<Rightarrow> string" where
  "doctor_at_location p =
     ''Dr. '' @ str_opt (preferred_doctor p) @ '' at '' @ str_opt (preferred_location p)"

definition found_text :: "bool \<Rightarrow> PatientInfo \<Rightarrow> string" where
  "found_text is_new p =
     ''Perfect! I've found your file. You are a '' @ (if is_new then ''new'' else ''returning'')
     @ '' patient. Now let me check available appointment slots for ''
     @ doctor_at_location p @ ''.''"

definition welcome_text :: "PatientInfo \<Rightarrow> string" where
  "welcome_text p =
     ''Thank you! It seems this is your first time with us. Welcome! ''
     @ ''Let me check available appointment slots for '' @ doctor_at_location p @ ''.''"

text \<open>
  The record is complete when this handler runs, so name and date are text. A missing
  date matches no row (not found); a missing name would reach the matcher of thefuzz,
  which takes text, and is a \<open>TypeError\<close> here.
\<close>

definition patient_lookup_node ::
  "(string \<Rightarrow> string \<Rightarrow> nat) \<Rightarrow> patient_row list \<Rightarrow> AgentState \<Rightarrow> py_error + AgentState"
where
  "patient_lookup_node scorer patients state =
     (case patient_info state of
        None \<Rightarrow> Inl KeyError
      | Some p \<Rightarrow>
          (case (case full_name p of
                   None \<Rightarrow> Inl TypeError
                 | Some name \<Rightarrow>
                     (case date_of_birth p of
                        None \<Rightarrow> Inl PatientNotFoundError
                      | Some dob \<Rightarrow> lookup_patient scorer patients name dob)) of
             Inr (pid, is_new) \<Rightarrow>
               Inr (state\<lparr>patient_id := Some pid, is_new_patient := Some is_new,
                          messages := messages state @ [assistant_msg (found_text is_new p)],
                          conversation_stage := Some Find_slots\<rparr>)
           | Inl PatientNotFoundError \<Rightarrow>
               Inr (state\<lparr>patient_id := Some ''NEW_PATIENT'', is_new_patient := Some True,
                          messages := messages state @ [assistant_msg (welcome_text p)],
                          conversation_stage := Some Find_slots\<rparr>)
           | Inl e \<Rightarrow> Inl e))"

text \<open>\<open>"\n".join([f"{i+1}. {s}" for i, s in enumerate(slots)])\<close>\<close>

definition numbered :: "string list \<Rightarrow> string" where
  "numbered slots =
     join newline (map (\<lambda>(i, s). str_nat (i + 1) @ ''. '' @ s) (enumerate 0 slots))"

definition slots_text :: "bool \<Rightarrow> PatientInfo \<Rightarrow> string list \<Rightarrow> string" where
  "slots_text is_new p slots =
     ''Great! Here are some available '' @ (if is_new then ''60 minutes'' else ''30 minutes'')
     @ '' appointment slots with '' @ doctor_at_location p @ '':'' @ newline @ newline
     @ numbered (take 5 slots) @ newline @ newline
     @ ''Which slot would you prefer? ''
     @ ''Please select by number or tell me which one works best for you.''"

definition no_slots_text :: "PatientInfo \<Rightarrow> string" where
  "no_slots_text p =
     ''I'm sorry, but I couldn't find any available slots with '' @ doctor_at_location p
     @ '' in the next two weeks. ''
     @ ''Would you like me to check with a different doctor or location?''"

text \<open>\<^const>\<open>None\<close>: the slot search does not return.\<close>

definition find_slots_node ::
  "(string \<Rightarrow> timestamp option) \<Rightarrow> appointment_row list option \<Rightarrow> CalendarTools \<Rightarrow> timestamp
   \<Rightarrow> AgentState \<Rightarrow> (py_error + AgentState) option"
where
  "find_slots_node to_datetime appointments_file calendar_tool now state =
     (let is_new = (case is_new_patient state of None \<Rightarrow> True | Some b \<Rightarrow> b);
          start_date = now;
          end_date = start_date + days 14;
          cal = load_booked_slots to_datetime appointments_file calendar_tool
      in case find_available_slots cal is_new start_date end_date of
           None \<Rightarrow> None
         | Some slots \<Rightarrow>
             Some (let state1 = state\<lparr>available_slots := Some slots\<rparr> in
                   case patient_info state1 of
                     None \<Rightarrow> Inl KeyError
                   | Some p \<Rightarrow>
                       if slots \<noteq> [] then
                         Inr (state1\<lparr>messages := messages state1
                                        @ [assistant_msg (slots_text is_new p slots)],
                                     conversation_stage := Some Selection_parser\<rparr>)
                       else
                         Inr (state1\<lparr>messages := messages state1
                                        @ [assistant_msg (no_slots_text p)],
                                     conversation_stage := Some Completed\<rparr>)))"

text \<open>
  The reply of the selection oracle is the JSON object the parser returns (the model is
  called in JSON-object mode), read with \<open>result.get(key)\<close> and not validated: a map
  from key to value, \<^const>\<open>None\<close> for a key that is missing or null. A value is a
  boolean, an integer, text, or something else (a float, a list or an object), of which
  only the truth value matters.
\<close>

datatype json = JBool bool | JInt int | JStr string | JOther bool

type_synonym selection_reply = "string \<rightharpoonup> json"

fun json_truthy :: "json option \<Rightarrow> bool" where
  "json_truthy None = False"
| "json_truthy (Some (JBool b)) = b"
| "json_truthy (Some (JInt n)) = (n \<noteq> 0)"
| "json_truthy (Some (JStr t)) = (t \<noteq> [])"
| "json_truthy (Some (JOther b)) = b"

definition json_or :: "json option \<Rightarrow> json option \<Rightarrow> json option" where
  "json_or a b = (if json_truthy a then a else b)"

text \<open>\<open>isinstance(v, int)\<close>: a Python boolean is an integer, \<open>True\<close> being 1.\<close>

fun as_int :: "json option \<Rightarrow> int option" where
  "as_int (Some (JInt n)) = Some n"
| "as_int (Some (JBool b)) = Some (if b then 1 else 0)"
| "as_int (Some (JStr t)) = None"
| "as_int (Some (JOther b)) = None"
| "as_int None = None"

definition clarify_text :: string where
  "clarify_text =
     ''I'm sorry, I couldn't determine which slot you prefer. ''
     @ ''Please reply with the number of your chosen option (e.g., '1', 'Option 2').''"

definition valid_slot_number :: "json option \<Rightarrow> string list \<Rightarrow> bool" where
  "valid_slot_number slot_num slots =
     (case as_int slot_num of None \<Rightarrow> False | Some n \<Rightarrow> 1 \<le> n \<and> n \<le> int (length slots))"

text \<open>
  The loop over the slots: \<open>selected_slot in slot or slot in selected_slot\<close> raises a
  \<open>TypeError\<close> when the selected value is not text. \<^const>\<open>None\<close>: no slot matched.
\<close>

fun match_slot :: "json \<Rightarrow> string list \<Rightarrow> py_error + string option" where
  "match_slot selected [] = Inr None"
| "match_slot selected (slot # slots) =
     (case selected of
        JStr t \<Rightarrow>
          if sublist t slot \<or> sublist slot t then Inr (Some slot)
          else match_slot selected slots
      | _ \<Rightarrow> Inl TypeError)"

definition slot_by_text :: "json option \<Rightarrow> string list \<Rightarrow> py_error + string option" where
  "slot_by_text selected slots =
     (if json_truthy selected \<and> selected \<noteq> Some (JStr ''AMBIGUOUS'') then
        (case selected of None \<Rightarrow> Inr None | Some v \<Rightarrow> match_slot v slots)
      else Inr None)"

text \<open>The two values the handler extracts from the reply, each under three keys.\<close>

definition reply_slot_number :: "selection_reply \<Rightarrow> json option" where
  "reply_slot_number result =
     json_or (json_or (result ''slotNumber'') (result ''slot_number'')) (result ''number'')"

definition reply_selected_slot :: "selection_reply \<Rightarrow> json option" where
  "reply_selected_slot result =
     json_or (json_or (result ''selectedSlot'') (result ''selected_slot'')) (result ''slot'')"

definition selection_parser_node :: "selection_reply \<Rightarrow> AgentState \<Rightarrow> py_error + AgentState"
where
  "selection_parser_node result state =
     (case available_slots state of
        None \<Rightarrow> Inl KeyError
      | Some slots \<Rightarrow>
          (let slot_num = reply_slot_number result;
               selected = reply_selected_slot result
           in if valid_slot_number slot_num slots then
                Inr (state\<lparr>chosen_slot :=
                             Some (slots ! nat ((case as_int slot_num of Some n \<Rightarrow> n
                                                 | None \<Rightarrow> 0) - 1)),
                           conversation_stage := Some Confirmation\<rparr>)
              else
                (case slot_by_text selected slots of
                   Inl e \<Rightarrow> Inl e
                 | Inr (Some slot) \<Rightarrow>
                     Inr (state\<lparr>chosen_slot := Some slot,
                                conversation_stage := Some Confirmation\<rparr>)
                 | Inr None \<Rightarrow>
                     Inr (state\<lparr>messages := messages state @ [assistant_msg clarify_text],
                                conversation_stage := Some Find_slots\<rparr>))))"

definition confirmed_text :: "string \<Rightarrow> string option \<Rightarrow> PatientInfo \<Rightarrow> string" where
  "confirmed_text new_id slot p =
     ''Excellent! Your appointment is confirmed with ID **'' @ new_id @ ''** for:''
     @ newline @ newline @ ''**'' @ str_opt slot @ ''**'' @ newline
     @ ''**Doctor:** '' @ str_opt (preferred_doctor p) @ newline
     @ ''**Location:** '' @ str_opt (preferred_location p) @ newline @ newline
     @ ''What is a good email address to send the intake form to?''"

definition booking_error_text :: string where
  "booking_error_text =
     ''I'm sorry, there was an error while trying to book your appointment. ''
     @ ''Please try again.''"

text \<open>The call of \<open>book_appointment\<close> with its three arguments read from the state.\<close>

definition booking_attempt ::
  "(string \<Rightarrow> string \<Rightarrow> timestamp option) \<Rightarrow> timestamp \<Rightarrow> bool \<Rightarrow> appointment_row list option
   \<Rightarrow> AgentState \<Rightarrow> py_error + (string \<times> appointment_row list option)"
where
  "booking_attempt strptime now write_ok appointments_file state =
     (case patient_id state of
        None \<Rightarrow> Inl KeyError
      | Some pid \<Rightarrow>
          (case chosen_slot state of
             None \<Rightarrow> Inl KeyError
           | Some slot \<Rightarrow>
               (case is_new_patient state of
                  None \<Rightarrow> Inl KeyError
                | Some is_new \<Rightarrow>
                    book_appointment strptime now write_ok appointments_file pid slot is_new)))"

text \<open>The \<open>except\<close> branch, on the state as the \<open>try\<close> block left it.\<close>

definition booking_failed :: "AgentState \<Rightarrow> AgentState" where
  "booking_failed state =
     state\<lparr>messages := messages state @ [assistant_msg booking_error_text],
           conversation_stage := Some Find_slots\<rparr>"

text \<open>The handler returns the new state and the appointments file.\<close>

definition confirmation_node ::
  "(string \<Rightarrow> string \<Rightarrow> timestamp option) \<Rightarrow> timestamp \<Rightarrow> bool \<Rightarrow> appointment_row list option
   \<Rightarrow> AgentState \<Rightarrow> AgentState \<times> appointment_row list option"
where
  "confirmation_node strptime now write_ok appointments_file state =
     (case booking_attempt strptime now write_ok appointments_file state of
        Inl e \<Rightarrow> (booking_failed state, appointments_file)
      | Inr (new_id, file') \<Rightarrow>
          (let state1 = state\<lparr>appointment_id := Some new_id\<rparr> in
           case patient_info state1 of
             None \<Rightarrow> (booking_failed state1, file')
           | Some p \<Rightarrow>
               (state1\<lparr>messages := messages state1
                          @ [assistant_msg (confirmed_text new_id (chosen_slot state1) p)],
                       conversation_stage := Some Email_collection\<rparr>,
                file')))"

text \<open>agents/insurance\_agent.py\<close>

definition normalize_and_validate_insurance_info :: "raw_reply \<Rightarrow> string option" where
  "normalize_and_validate_insurance_info data =
     py_or (py_or (data ''patientEmail'') (data ''patient_email'')) (data ''email'')"

definition sent_text :: "string \<Rightarrow> string \<Rightarrow> string \<Rightarrow> PatientInfo \<Rightarrow> string" where
  "sent_text email new_id slot p =
     ''Perfect! I've sent the intake form to '' @ email
     @ ''. Your appointment is all set!'' @ newline @ newline
     @ ''**Appointment Summary:**'' @ newline
     @ ''- **ID:** '' @ new_id @ newline
     @ ''- **Patient:** '' @ str_opt (full_name p) @ newline
     @ ''- **Date/Time:** '' @ slot @ newline
     @ ''- **Doctor:** '' @ str_opt (preferred_doctor p) @ newline
     @ ''- **Location:** '' @ str_opt (preferred_location p) @ newline @ newline
     @ ''Is there anything else I can help you with?''"

definition email_again_text :: string where
  "email_again_text =
     ''I didn't catch a valid email address. ''
     @ ''Could you please provide it so I can send the forms?''"

text \<open>
  \<open>send_form_email\<close> catches its own failures and its result is not read, so the
  sending leaves no trace in the state.
\<close>

definition email_collection_node :: "raw_reply \<Rightarrow> AgentState \<Rightarrow> py_error + AgentState" where
  "email_collection_node raw_info state =
     (let email = normalize_and_validate_insurance_info raw_info in
      if truthy email then
        (let state1 = state\<lparr>patient_email := email\<rparr> in
         case patient_info state1 of
           None \<Rightarrow> Inl KeyError
         | Some p \<Rightarrow>
             (case appointment_id state1 of
                None \<Rightarrow> Inl KeyError
              | Some new_id \<Rightarrow>
                  (case chosen_slot state1 of
                     None \<Rightarrow> Inl KeyError
                   | Some slot \<Rightarrow>
                       Inr (state1\<lparr>messages := messages state1
                                      @ [assistant_msg (sent_text (str_opt email) new_id slot p)],
                                   conversation_stage := Some Completed\<rparr>))))
      else
        Inr (state\<lparr>messages := messages state @ [assistant_msg email_again_text],
                   conversation_stage := Some Email_collection\<rparr>))"


section \<open>Runs of the graph (main\_graph.py, app.py)\<close>

text \<open>
  app.py starts from the empty state, puts the messages of the session (the last one
  the user's) under \<open>messages\<close>, runs the graph until the router ends the run, and keeps
  the state for the next turn. The flag of \<open>reach\<close> records whether the \<open>except\<close>
  branch of the confirmation handler has run on the way.
\<close>

definition initial_state :: "message list \<Rightarrow> AgentState" where
  "initial_state ms =
     \<lparr>messages = ms, patient_info = None, patient_id = None, is_new_patient = None,
      available_slots = None, chosen_slot = None, appointment_id = None,
      patient_email = None, conversation_stage = None\<rparr>"

definition next_node :: "AgentState \<Rightarrow> stage option" where
  "next_node state = router_map (route_conversation state)"

inductive reach :: "bool \<Rightarrow> AgentState \<Rightarrow> bool" where
  start: "reach False (initial_state (ms @ [user_msg text]))"
| user_turn:
    "reach f s \<Longrightarrow> next_node s = None
     \<Longrightarrow> reach f (s\<lparr>messages := ms @ [user_msg text]\<rparr>)"
| greeting:
    "reach f s \<Longrightarrow> next_node s = Some Greeting \<Longrightarrow> reach f (greeting_node raw_info s)"
| information_confirmation:
    "reach f s \<Longrightarrow> next_node s = Some Information_confirmation
     \<Longrightarrow> information_confirmation_node s = Inr s' \<Longrightarrow> reach f s'"
| patient_lookup:
    "reach f s \<Longrightarrow> next_node s = Some Patient_lookup
     \<Longrightarrow> patient_lookup_node scorer patients s = Inr s' \<Longrightarrow> reach f s'"
| find_slots:
    "reach f s \<Longrightarrow> next_node s = Some Find_slots
     \<Longrightarrow> find_slots_node to_datetime appointments_file calendar_tool now s = Some (Inr s')
     \<Longrightarrow> reach f s'"
| selection_parser:
    "reach f s \<Longrightarrow> next_node s = Some Selection_parser
     \<Longrightarrow> selection_parser_node result s = Inr s' \<Longrightarrow> reach f s'"
| confirmation:
    "reach f s \<Longrightarrow> next_node s = Some Confirmation
     \<Longrightarrow> confirmation_node strptime now write_ok appointments_file s = (s', file')
     \<Longrightarrow> reach (f \<or> conversation_stage s' = Some Find_slots) s'"
| email_collection:
    "reach f s \<Longrightarrow> next_node s = Some Email_collection
     \<Longrightarrow> email_collection_node raw_info s = Inr s' \<Longrightarrow> reach f s'"



section \<open>Reference definitions and examples\<close>

text \<open>
  The start-times the specification of the slot finder lists for one block: the block
  start plus a multiple of the duration, as long as the slot ends within the block.
\<close>

definition block_starts :: "timestamp \<Rightarrow> timestamp \<Rightarrow> int \<Rightarrow> timestamp list" where
  "block_starts block_start block_end duration =
     map (\<lambda>k. block_start + int k * duration)
       [0..<nat ((block_end - block_start) div duration)]"

text \<open>The slots of one block that are not booked, formatted.\<close>

definition free_slots :: "timestamp set \<Rightarrow> int \<Rightarrow> schedule_row \<Rightarrow> string list" where
  "free_slots booked duration row =
     map (formatted_slot (doctor_name row))
       (filter (\<lambda>t. t \<notin> booked)
          (block_starts (start_datetime row) (end_datetime row) duration))"

text \<open>
  A schedule with one block, 2025-09-08 from 09:00 to 12:00, and a booking at 10:00.
\<close>

definition example_calendar :: CalendarTools where
  "example_calendar =
     \<lparr>df = [\<lparr>doctor_name = ''Dr. Smith'', start_datetime = 1757322000000000,
             end_datetime = 1757332800000000\<rparr>],
      appointment_durations = \<lparr>new_patient = 60, returning_patient = 30\<rparr>,
      booked_slots = {1757325600000000}\<rparr>"


text \<open>
  A patient file with one record, and a scorer that gives 100 to equal names and 95 to
  "Jon Smith" against "John Smith".
\<close>

definition example_patients :: "patient_row list" where
  "example_patients =
     [\<lparr>patient_id_col = ''P001'', first_name = ''John'', last_name = ''Smith'',
       date_of_birth_col = ''1990-06-10'', visit_history = 3\<rparr>]"

definition example_scorer :: "string \<Rightarrow> string \<Rightarrow> nat" where
  "example_scorer a b =
     (if a = b then 100 else if a = ''Jon Smith'' \<and> b = ''John Smith'' then 95 else 0)"







text \<open>
  A clock at 2025-09-05 10:00:00, the first slot of the example schedule, and a
  \<open>strptime\<close> that knows the date and time of that slot.
\<close>

definition example_now :: timestamp where
  "example_now = 1757066400000000"

definition example_strptime :: "string \<Rightarrow> string \<Rightarrow> timestamp option" where
  "example_strptime s fmt =
     (if fmt = slot_format \<and> s = ''Monday, September 08, 2025 09:00 AM''
      then Some 1757322000000000 else None)"

definition example_slot :: string where
  "example_slot = ''Dr. Smith on Monday, September 08 at 09:00 AM''"


text \<open>The stage of a state, greeting when none is set, and the facts that hold along a run.\<close>

definition current_stage :: "AgentState \<Rightarrow> stage" where
  "current_stage s = (case conversation_stage s of None \<Rightarrow> Greeting | Some st \<Rightarrow> st)"

definition consistent :: "bool \<Rightarrow> AgentState \<Rightarrow> bool" where
  "consistent f s \<longleftrightarrow>
     (1 \<le> stage_rank (current_stage s) \<longrightarrow> patient_info s \<noteq> None)
     \<and> (3 \<le> stage_rank (current_stage s) \<longrightarrow>
          patient_id s \<noteq> None \<and> is_new_patient s \<noteq> None)
     \<and> (current_stage s = Confirmation \<longrightarrow> chosen_slot s \<noteq> None)
     \<and> (appointment_id s \<noteq> None \<longrightarrow> 6 \<le> stage_rank (current_stage s))
     \<and> (chosen_slot s \<noteq> None \<longrightarrow> (if f then 3 else 5) \<le> stage_rank (current_stage s))"


text \<open>
  A conversation: the greeting, a complete request, its confirmation, the lookup of a
  patient not on file, the slot search over a schedule of two doctors (the second entered
  without "Dr. "), and the choice of a slot.
\<close>

definition example_info :: PatientInfo where
  "example_info =
     \<lparr>full_name = Some ''Jane Doe'', date_of_birth = Some ''1985-03-15'',
      preferred_doctor = Some ''Smith'', preferred_location = Some ''Downtown Clinic''\<rparr>"

definition example_reply :: raw_reply where
  "example_reply =
     map_of [(''fullName'', ''Jane Doe''), (''dateOfBirth'', ''1985-03-15''),
             (''preferredDoctor'', ''Smith''), (''preferredLocation'', ''Downtown Clinic'')]"

definition example_request :: string where
  "example_request = ''I am Jane Doe, born 1985-03-15. Dr. Smith at Downtown Clinic''"

definition clinic_calendar :: CalendarTools where
  "clinic_calendar =
     \<lparr>df = [\<lparr>doctor_name = ''Dr. Smith'', start_datetime = 1757322000000000,
             end_datetime = 1757332800000000\<rparr>,
            \<lparr>doctor_name = ''Jones'', start_datetime = 1757322000000000,
             end_datetime = 1757325600000000\<rparr>],
      appointment_durations = \<lparr>new_patient = 60, returning_patient = 30\<rparr>,
      booked_slots = {}\<rparr>"

definition clinic_slots :: "string list" where
  "clinic_slots =
     [''Dr. Smith on Monday, September 08 at 09:00 AM'',
      ''Dr. Smith on Monday, September 08 at 10:00 AM'',
      ''Dr. Smith on Monday, September 08 at 11:00 AM'',
      ''Jones on Monday, September 08 at 09:00 AM'']"

definition run0 :: AgentState where
  "run0 = initial_state [user_msg ''Hi there!'']"

definition run1 :: AgentState where
  "run1 = run0\<lparr>messages := messages run0 @ [assistant_msg greeting_text],
               conversation_stage := Some Greeting\<rparr>"

definition run2 :: AgentState where
  "run2 = run1\<lparr>messages := messages run1 @ [user_msg example_request]\<rparr>"

definition run3 :: AgentState where
  "run3 = run2\<lparr>patient_info := Some example_info,
               conversation_stage := Some Information_confirmation\<rparr>"

definition run4 :: AgentState where
  "run4 = run3\<lparr>messages := messages run3 @ [assistant_msg (summary_text example_info)],
               conversation_stage := Some Information_confirmation\<rparr>"

definition run5 :: AgentState where
  "run5 = run4\<lparr>messages := messages run4 @ [user_msg ''yes'']\<rparr>"

definition run6 :: AgentState where
  "run6 = run5\<lparr>conversation_stage := Some Patient_lookup\<rparr>"

definition run7 :: AgentState where
  "run7 = run6\<lparr>patient_id := Some ''NEW_PATIENT'', is_new_patient := Some True,
               messages := messages run6 @ [assistant_msg (welcome_text example_info)],
               conversation_stage := Some Find_slots\<rparr>"

definition run8 :: AgentState where
  "run8 = run7\<lparr>available_slots := Some clinic_slots,
               messages := messages run7
                 @ [assistant_msg (slots_text True example_info clinic_slots)],
               conversation_stage := Some Selection_parser\<rparr>"

definition run9 :: "string \<Rightarrow> AgentState" where
  "run9 choice = run8\<lparr>messages := messages run8 @ [user_msg choice]\<rparr>"

definition run10 :: "string \<Rightarrow> string \<Rightarrow> AgentState" where
  "run10 choice slot =
     (run9 choice)\<lparr>chosen_slot := Some slot, conversation_stage := Some Confirmation\<rparr>"

definition jones_slot :: string where
  "jones_slot = ''Jones on Monday, September 08 at 09:00 AM''"

definition run11 :: AgentState where
  "run11 = booking_failed (run10 ''Option 4'' jones_slot)"


section \<open>Properties\<close>

subsection \<open>The missing-information message\<close>

lemma missing_fields_length: "length (missing_fields p) \<le> 4"
  by (simp add: missing_fields_def)

text \<open>
  C6. The message names the absent fields in the fixed order full name, date of birth,
  preferred doctor, preferred location. No field missing: no message. One: "I still
  need X." Two: "X and Y". Three or four: the list with a comma before "and". With
  exactly the doctor and the location missing the text is the one the specification
  quotes.
\<close>

theorem get_missing_info_message_spec:
  "missing_fields p =
     map snd (filter (\<lambda>(v, l). \<not> truthy v)
       [(full_name p, ''your full name''), (date_of_birth p, ''your date of birth''),
        (preferred_doctor p, ''your preferred doctor''),
        (preferred_location p, ''your preferred location'')])
   \<and> (missing_fields p = [] \<longrightarrow> get_missing_info_message p = None)
   \<and> (\<forall>x. missing_fields p = [x] \<longrightarrow>
          get_missing_info_message p =
            Some (''I still need '' @ x @ ''. Could you please provide that information?''))
   \<and> (\<forall>x y. missing_fields p = [x, y] \<longrightarrow>
          get_missing_info_message p =
            Some (''I still need '' @ x @ '' and '' @ y
                  @ ''. Could you please provide that information?''))
   \<and> (\<forall>x y z. missing_fields p = [x, y, z] \<longrightarrow>
          get_missing_info_message p =
            Some (''I still need '' @ x @ '', '' @ y @ '', and '' @ z
                  @ ''. Could you please provide that information?''))
   \<and> (\<forall>w x y z. missing_fields p = [w, x, y, z] \<longrightarrow>
          get_missing_info_message p =
            Some (''I still need '' @ w @ '', '' @ x @ '', '' @ y @ '', and '' @ z
                  @ ''. Could you please provide that information?''))
   \<and> length (missing_fields p) \<le> 4
   \<and> (truthy (full_name p) \<and> truthy (date_of_birth p)
        \<and> \<not> truthy (preferred_doctor p) \<and> \<not> truthy (preferred_location p) \<longrightarrow>
        get_missing_info_message p =
          Some (''I still need your preferred doctor and your preferred location. ''
                @ ''Could you please provide that information?''))"
proof -
  have order: "missing_fields p =
     map snd (filter (\<lambda>(v, l). \<not> truthy v)
       [(full_name p, ''your full name''), (date_of_birth p, ''your date of birth''),
        (preferred_doctor p, ''your preferred doctor''),
        (preferred_location p, ''your preferred location'')])"
    by (simp add: missing_fields_def)
  have quoted: "get_missing_info_message p =
          Some (''I still need your preferred doctor and your preferred location. ''
                @ ''Could you please provide that information?'')"
    if "truthy (full_name p)" "truthy (date_of_birth p)"
       "\<not> truthy (preferred_doctor p)" "\<not> truthy (preferred_location p)"
    using that by (simp add: get_missing_info_message_def missing_fields_def please_provide_def)
  show ?thesis
    using order quoted missing_fields_length [of p]
    by (simp add: get_missing_info_message_def please_provide_def)
qed

theorem get_missing_info_message_witness:
  "get_missing_info_message
     \<lparr>full_name = Some ''Jane Doe'', date_of_birth = Some ''1985-03-15'',
      preferred_doctor = None, preferred_location = None\<rparr> =
   Some (''I still need your preferred doctor and your preferred location. ''
         @ ''Could you please provide that information?'')"
  using get_missing_info_message_spec
    [of "\<lparr>full_name = Some ''Jane Doe'', date_of_birth = Some ''1985-03-15'',
          preferred_doctor = None, preferred_location = None\<rparr>"]
  by simp


subsection \<open>The merge of patient information\<close>

lemma py_or_idem: "py_or a (py_or a b) = py_or a b"
  by (simp add: py_or_def)

lemma py_or_keeps: "b \<noteq> None \<Longrightarrow> py_or a b \<noteq> None"
  by (cases a) (auto simp: py_or_def)

lemma updated_info_idem: "updated_info (updated_info old new) new = updated_info old new"
  by (simp add: updated_info_def py_or_idem)

text \<open>
  C4. Each of the four fields of the merged record is the new value when that is not
  empty and the old value otherwise; a field the prior record knows is never null
  after the merge; merging the same extraction a second time changes nothing. The
  greeting handler stores exactly this merge whenever it runs the extractor.
\<close>

theorem merge_policy:
  "full_name (updated_info old new) =
     (if truthy (full_name new) then full_name new else full_name old)
   \<and> date_of_birth (updated_info old new) =
     (if truthy (date_of_birth new) then date_of_birth new else date_of_birth old)
   \<and> preferred_doctor (updated_info old new) =
     (if truthy (preferred_doctor new) then preferred_doctor new else preferred_doctor old)
   \<and> preferred_location (updated_info old new) =
     (if truthy (preferred_location new) then preferred_location new
      else preferred_location old)
   \<and> (full_name old \<noteq> None \<longrightarrow> full_name (updated_info old new) \<noteq> None)
   \<and> (date_of_birth old \<noteq> None \<longrightarrow> date_of_birth (updated_info old new) \<noteq> None)
   \<and> (preferred_doctor old \<noteq> None \<longrightarrow> preferred_doctor (updated_info old new) \<noteq> None)
   \<and> (preferred_location old \<noteq> None \<longrightarrow>
        preferred_location (updated_info old new) \<noteq> None)
   \<and> updated_info (updated_info old new) new = updated_info old new
   \<and> store_patient_info (Some old) new = updated_info old new
   \<and> store_patient_info (Some (store_patient_info prior new)) new =
       store_patient_info prior new
   \<and> (\<not> (length (messages s) = 1 \<and> patient_info s = None) \<longrightarrow>
        patient_info (greeting_node raw s) =
          Some (store_patient_info (patient_info s)
                  (normalize_and_validate_patient_info raw)))"
proof -
  have fields:
    "full_name (updated_info old new) =
       (if truthy (full_name new) then full_name new else full_name old)"
    "date_of_birth (updated_info old new) =
       (if truthy (date_of_birth new) then date_of_birth new else date_of_birth old)"
    "preferred_doctor (updated_info old new) =
       (if truthy (preferred_doctor new) then preferred_doctor new else preferred_doctor old)"
    "preferred_location (updated_info old new) =
       (if truthy (preferred_location new) then preferred_location new
        else preferred_location old)"
    by (simp_all add: updated_info_def py_or_def)
  have keeps:
    "full_name old \<noteq> None \<longrightarrow> full_name (updated_info old new) \<noteq> None"
    "date_of_birth old \<noteq> None \<longrightarrow> date_of_birth (updated_info old new) \<noteq> None"
    "preferred_doctor old \<noteq> None \<longrightarrow> preferred_doctor (updated_info old new) \<noteq> None"
    "preferred_location old \<noteq> None \<longrightarrow> preferred_location (updated_info old new) \<noteq> None"
    by (simp_all add: updated_info_def py_or_keeps)
  have twice: "store_patient_info (Some (store_patient_info prior new)) new =
       store_patient_info prior new"
  proof (cases prior)
    case None
    have "updated_info new new = new"
      by (simp add: updated_info_def py_or_def)
    with None show ?thesis by (simp add: store_patient_info_def)
  next
    case (Some e)
    then show ?thesis by (simp add: store_patient_info_def updated_info_idem)
  qed
  have node: "\<not> (length (messages s) = 1 \<and> patient_info s = None) \<longrightarrow>
        patient_info (greeting_node raw s) =
          Some (store_patient_info (patient_info s)
                  (normalize_and_validate_patient_info raw))"
    by (simp add: greeting_node_def Let_def)
  show ?thesis
    using fields keeps twice node
    by (simp add: updated_info_idem store_patient_info_def)
qed

theorem merge_policy_witness:
  "updated_info
     \<lparr>full_name = Some ''Jane Doe'', date_of_birth = Some ''1985-03-15'',
      preferred_doctor = None, preferred_location = None\<rparr>
     \<lparr>full_name = None, date_of_birth = Some '''',
      preferred_doctor = Some ''Smith'', preferred_location = None\<rparr> =
   \<lparr>full_name = Some ''Jane Doe'', date_of_birth = Some ''1985-03-15'',
    preferred_doctor = Some ''Smith'', preferred_location = None\<rparr>"
  using merge_policy
    [of "\<lparr>full_name = Some ''Jane Doe'', date_of_birth = Some ''1985-03-15'',
           preferred_doctor = None, preferred_location = None\<rparr>"
        "\<lparr>full_name = None, date_of_birth = Some '''',
          preferred_doctor = Some ''Smith'', preferred_location = None\<rparr>"]
  by (simp add: PatientInfo.equality)

subsection \<open>The router\<close>

text \<open>
  C3. In the stage find\_slots the router returns find\_slots, whoever wrote the last
  message. In every other stage it returns the end signal exactly when the list of
  messages is not empty and its last element has the role assistant; otherwise it
  returns the current stage, greeting when none is set.
\<close>

theorem route_conversation_spec:
  "(conversation_stage s = Some Find_slots \<longrightarrow> route_conversation s = Goto Find_slots)
   \<and> (conversation_stage s \<noteq> Some Find_slots \<longrightarrow>
        (route_conversation s = END \<longleftrightarrow>
           messages s \<noteq> [] \<and> role (last (messages s)) = ''assistant'')
        \<and> (route_conversation s \<noteq> END \<longrightarrow>
             (\<forall>st. conversation_stage s = Some st \<longrightarrow> route_conversation s = Goto st)
             \<and> (conversation_stage s = None \<longrightarrow> route_conversation s = Goto Greeting)))"
  by (cases "conversation_stage s") (auto simp: route_conversation_def)

theorem route_conversation_witness:
  "route_conversation
     ((initial_state [user_msg ''Hi'', assistant_msg ''Hello''])
        \<lparr>conversation_stage := Some Find_slots\<rparr>) = Goto Find_slots
   \<and> route_conversation
       ((initial_state [user_msg ''Hi'', assistant_msg ''Hello''])
          \<lparr>conversation_stage := Some Selection_parser\<rparr>) = END
   \<and> route_conversation (initial_state [user_msg ''Hi'']) = Goto Greeting"
  using
    route_conversation_spec
      [of "(initial_state [user_msg ''Hi'', assistant_msg ''Hello''])
             \<lparr>conversation_stage := Some Find_slots\<rparr>"]
    route_conversation_spec
      [of "(initial_state [user_msg ''Hi'', assistant_msg ''Hello''])
             \<lparr>conversation_stage := Some Selection_parser\<rparr>"]
    route_conversation_spec [of "initial_state [user_msg ''Hi'']"]
  by (simp add: initial_state_def user_msg_def assistant_msg_def)


subsection \<open>The slot finder\<close>

lemma le_div_iff_int:
  fixes d m x :: int
  assumes "0 < d"
  shows "m \<le> x div d \<longleftrightarrow> m * d \<le> x"
proof
  assume "m \<le> x div d"
  then have "m * d \<le> (x div d) * d"
    using assms by (simp add: mult_right_mono)
  also have "(x div d) * d = x - x mod d"
    by (simp add: minus_mod_eq_div_mult)
  also have "\<dots> \<le> x"
    using assms by simp
  finally show "m * d \<le> x" .
next
  assume "m * d \<le> x"
  then have "(m * d) div d \<le> x div d"
    using assms by (rule zdiv_mono1)
  then show "m \<le> x div d"
    using assms by simp
qed

lemma div_step:
  fixes d e t :: int
  assumes "0 < d"
  shows "(e - t) div d = (e - (t + d)) div d + 1"
proof -
  have "(e - (t + d) + d) div d = (e - (t + d)) div d + 1"
    using assms by (simp only: div_add_self2)
  moreover have "e - (t + d) + d = e - t" by simp
  ultimately show ?thesis by (simp only:)
qed

lemma block_starts_Nil:
  assumes "0 < d" "\<not> t + d \<le> e"
  shows "block_starts t e d = []"
proof -
  have "\<not> 1 \<le> (e - t) div d"
    using assms by (simp add: le_div_iff_int)
  then show ?thesis by (simp add: block_starts_def)
qed

lemma map_upt_shift:
  "map (\<lambda>k. t + int k * d) [0..<Suc n] = t # map (\<lambda>k. t + d + int k * d) [0..<n]"
proof -
  have "[0..<Suc n] = 0 # map Suc [0..<n]"
    by (simp add: upt_conv_Cons map_Suc_upt del: upt_Suc)
  then show ?thesis
    by (simp add: comp_def algebra_simps del: upt_Suc)
qed

lemma block_starts_Cons:
  assumes "0 < d" "t + d \<le> e"
  shows "block_starts t e d = t # block_starts (t + d) e d"
proof -
  have step: "(e - t) div d = (e - (t + d)) div d + 1"
    using assms(1) by (rule div_step)
  have "0 \<le> (e - (t + d)) div d"
    using assms by (simp add: pos_imp_zdiv_nonneg_iff)
  with step have n: "nat ((e - t) div d) = Suc (nat ((e - (t + d)) div d))"
    by simp
  show ?thesis
    by (simp only: block_starts_def n map_upt_shift)
qed

lemma set_block_starts:
  assumes "0 < d"
  shows "set (block_starts b e d) = {t. \<exists>k::nat. t = b + int k * d \<and> t + d \<le> e}"
proof -
  have fits: "k < nat ((e - b) div d) \<longleftrightarrow> b + int k * d + d \<le> e" for k :: nat
  proof -
    have "k < nat ((e - b) div d) \<longleftrightarrow> int k < (e - b) div d"
      by (rule zless_nat_eq_int_zless)
    also have "\<dots> \<longleftrightarrow> int k + 1 \<le> (e - b) div d"
      by linarith
    also have "\<dots> \<longleftrightarrow> (int k + 1) * d \<le> e - b"
      using assms by (rule le_div_iff_int)
    also have "\<dots> \<longleftrightarrow> b + int k * d + d \<le> e"
      by (simp add: algebra_simps)
    finally show ?thesis .
  qed
  have "set (block_starts b e d) = (\<lambda>k. b + int k * d) ` {k. k < nat ((e - b) div d)}"
    by (simp add: block_starts_def atLeast0LessThan lessThan_def)
  also have "\<dots> = {t. \<exists>k::nat. t = b + int k * d \<and> t + d \<le> e}"
    unfolding fits by blast
  finally show ?thesis .
qed

lemma slot_loop_eq:
  assumes "0 < d"
  shows "slot_loop d booked doctor e t acc =
         Some (acc @ map (formatted_slot doctor) (filter (\<lambda>x. x \<notin> booked) (block_starts t e d)))"
proof (induction "nat ((e - t) div d)" arbitrary: t acc)
  case 0
  then have "\<not> 1 \<le> (e - t) div d" by simp
  then have stop: "\<not> t + d \<le> e"
    using assms by (simp add: le_div_iff_int)
  have "slot_loop d booked doctor e t acc = Some acc"
    using stop by (subst slot_loop.simps) (simp only: if_False)
  then show ?case
    by (simp add: block_starts_Nil [OF assms stop])
next
  case (Suc n)
  then have "1 \<le> (e - t) div d" by simp
  then have go: "t + d \<le> e"
    using assms by (simp add: le_div_iff_int)
  have "(e - t) div d = (e - (t + d)) div d + 1"
    using assms by (rule div_step)
  then have "n = nat ((e - (t + d)) div d)"
    using Suc(2) by simp
  note IH = Suc(1) [OF this]
  have "slot_loop d booked doctor e t acc =
        slot_loop d booked doctor e (t + d)
          (if t \<notin> booked then acc @ [formatted_slot doctor t] else acc)"
    using go by (subst slot_loop.simps) (simp only: if_True)
  then show ?case
    by (simp add: IH block_starts_Cons [OF assms go])
qed

lemma rows_loop_eq:
  assumes "0 < d"
  shows "rows_loop d booked rows acc = Some (acc @ concat (map (free_slots booked d) rows))"
  by (induction rows arbitrary: acc) (simp_all add: slot_loop_eq [OF assms] free_slots_def)

lemma sorted_block_starts:
  assumes "0 < d"
  shows "sorted_wrt (<) (block_starts b e d)"
proof -
  have "sorted_wrt (\<lambda>j k. b + int j * d < b + int k * d) [0..<n]" for n
    using assms by (intro sorted_wrt_mono_rel [OF _ sorted_wrt_upt]) simp
  then show ?thesis
    by (simp add: block_starts_def sorted_wrt_map)
qed

text \<open>
  C5. With a positive duration the slot search returns, and its result lists, block after
  block in the order of the schedule and within a block by rising offset, the slots
  at the start-times block start + k * duration (k = 0, 1, ...) that end no later
  than the block, leaving out exactly the start-times found in the set of booked
  slots. Only blocks that start within the searched dates are listed.
\<close>

theorem find_available_slots_spec:
  assumes "m = (if is_new then new_patient (appointment_durations cal)
                else returning_patient (appointment_durations cal))"
    and "0 < m"
  shows "find_available_slots cal is_new start_date end_date =
           Some (concat (map (\<lambda>row.
                   map (formatted_slot (doctor_name row))
                     (filter (\<lambda>t. t \<notin> booked_slots cal)
                        (block_starts (start_datetime row) (end_datetime row) (minutes m))))
                 (filter (\<lambda>row. start_date \<le> start_datetime row
                                \<and> start_datetime row < end_date) (df cal))))
         \<and> (\<forall>b e. set (block_starts b e (minutes m)) =
                  {t. \<exists>k::nat. t = b + int k * minutes m \<and> t + minutes m \<le> e})
         \<and> (\<forall>b e. sorted_wrt (<) (block_starts b e (minutes m)))"
proof -
  have pos: "0 < minutes m"
    using assms(2) by (simp add: minutes_def)
  have "find_available_slots cal is_new start_date end_date =
          rows_loop (minutes m) (booked_slots cal)
            (filter (\<lambda>row. start_date \<le> start_datetime row \<and> start_datetime row < end_date)
               (df cal)) []"
    unfolding assms(1) by (simp add: find_available_slots_def Let_def)
  also have "\<dots> = Some ([] @ concat (map (free_slots (booked_slots cal) (minutes m))
                 (filter (\<lambda>row. start_date \<le> start_datetime row
                                \<and> start_datetime row < end_date) (df cal))))"
    by (rule rows_loop_eq [OF pos])
  finally have result: "find_available_slots cal is_new start_date end_date =
           Some (concat (map (\<lambda>row.
                   map (formatted_slot (doctor_name row))
                     (filter (\<lambda>t. t \<notin> booked_slots cal)
                        (block_starts (start_datetime row) (end_datetime row) (minutes m))))
                 (filter (\<lambda>row. start_date \<le> start_datetime row
                                \<and> start_datetime row < end_date) (df cal))))"
    by (simp only: append_Nil free_slots_def [abs_def])
  show ?thesis
    by (intro conjI allI result set_block_starts [OF pos] sorted_block_starts [OF pos])
qed

lemma civil_20339: "civil_from_days 20339 = (2025, 9, 8)"
  by code_simp

lemma example_block_starts:
  "block_starts 1757322000000000 1757332800000000 (minutes 60) =
     [1757322000000000, 1757325600000000, 1757329200000000]"
proof -
  have n: "nat ((1757332800000000 - 1757322000000000) div minutes 60) = 3"
    by (simp add: minutes_def)
  have "[0..<3] = [0, 1, Suc 1]"
    by (simp add: upt_rec)
  then show ?thesis
    by (simp add: block_starts_def n) (simp add: minutes_def)
qed

lemma example_slot_0900:
  "formatted_slot doctor 1757322000000000 = doctor @ '' on Monday, September 08 at 09:00 AM''"
  by (simp add: formatted_slot_def strftime_A_B_d_def strftime_I_M_p_def weekday_def
        month_def day_def day_number_def civil_20339 hour_def minute_def second_of_day_def
        day_names_def month_names_def pad2_def str_nat.simps digit_char_def)

lemma example_slot_1100:
  "formatted_slot doctor 1757329200000000 = doctor @ '' on Monday, September 08 at 11:00 AM''"
  by (simp add: formatted_slot_def strftime_A_B_d_def strftime_I_M_p_def weekday_def
        month_def day_def day_number_def civil_20339 hour_def minute_def second_of_day_def
        day_names_def month_names_def pad2_def str_nat.simps digit_char_def)

theorem find_available_slots_witness:
  "find_available_slots example_calendar True 1757300000000000 1758509600000000 =
     Some [''Dr. Smith on Monday, September 08 at 09:00 AM'',
           ''Dr. Smith on Monday, September 08 at 11:00 AM'']"
proof -
  have m: "(60::int) = (if True then new_patient (appointment_durations example_calendar)
                else returning_patient (appointment_durations example_calendar))"
    by (simp add: example_calendar_def)
  have pos: "(0::int) < 60" by simp
  note spec = find_available_slots_spec [OF m pos, THEN conjunct1]
  show ?thesis
    unfolding spec
    by (simp add: example_calendar_def example_block_starts example_slot_0900
          example_slot_1100)
qed


subsection \<open>The patient search\<close>

lemma fold_best_in:
  "fold (\<lambda>x best. if snd x > snd best then x else best) ms (m :: 'a \<times> nat) \<in> set (m # ms)"
  by (induction ms arbitrary: m) (auto split: if_splits)

lemma fold_best_ge:
  "snd m \<le> snd (fold (\<lambda>x best. if snd x > snd best then x else best) ms (m :: 'a \<times> nat))"
proof (induction ms arbitrary: m)
  case Nil
  show ?case by simp
next
  case (Cons a ms)
  let ?m' = "if snd a > snd m then a else m"
  have "snd m \<le> snd ?m'" by simp
  also have "\<dots> \<le> snd (fold (\<lambda>x best. if snd x > snd best then x else best) ms ?m')"
    by (rule Cons.IH)
  finally show ?case by simp
qed

lemma fold_best_max:
  "x \<in> set (m # ms) \<Longrightarrow>
   snd x \<le> snd (fold (\<lambda>x best. if snd x > snd best then x else best) ms (m :: 'a \<times> nat))"
proof (induction ms arbitrary: m)
  case Nil
  then show ?case by simp
next
  case (Cons a ms)
  let ?m' = "if snd a > snd m then a else m"
  let ?best = "fold (\<lambda>x best. if snd x > snd best then x else best) ms ?m'"
  have m': "snd m \<le> snd ?m'" "snd a \<le> snd ?m'" by simp_all
  have ge: "snd ?m' \<le> snd ?best" by (rule fold_best_ge)
  from Cons.prems consider "x = m" | "x = a" | "x \<in> set ms" by auto
  then have "snd x \<le> snd ?best"
  proof cases
    case 1
    from order_trans [OF m'(1) ge] 1 show ?thesis by simp
  next
    case 2
    from order_trans [OF m'(2) ge] 2 show ?thesis by simp
  next
    case 3
    then have "x \<in> set (?m' # ms)" by simp
    then show ?thesis by (rule Cons.IH)
  qed
  then show ?case by simp
qed

lemma extractOne_Some:
  assumes "extractOne scorer query choices cutoff = Some (matched, score)"
  shows "matched \<in> set choices \<and> score = scorer query matched \<and> cutoff \<le> score
         \<and> (\<forall>c \<in> set choices. scorer query c \<le> score)"
proof -
  let ?scored = "map (\<lambda>c. (c, scorer query c)) choices"
  let ?ok = "filter (\<lambda>m. snd m \<ge> cutoff) ?scored"
  from assms obtain m ms where ok: "?ok = m # ms"
    and best: "(matched, score) = fold (\<lambda>x best. if snd x > snd best then x else best) ms m"
    by (auto simp: extractOne_def split: list.splits)
  have "(matched, score) \<in> set ?ok"
    using fold_best_in [of ms m] ok best by simp
  then have in_choices: "matched \<in> set choices" "score = scorer query matched" "cutoff \<le> score"
    by auto
  have "scorer query c \<le> score" if "c \<in> set choices" for c
  proof (cases "cutoff \<le> scorer query c")
    case True
    with that have "(c, scorer query c) \<in> set (m # ms)"
      unfolding ok [symmetric] by auto
    from fold_best_max [OF this] best show ?thesis
      by (metis snd_conv)
  next
    case False
    with in_choices(3) show ?thesis by simp
  qed
  with in_choices show ?thesis by blast
qed

text \<open>
  C8. The search returns a record only if the full name of that record is the best
  fuzzy match of the queried name among the stored names, with a score of at least 80,
  and the stored date of birth of the record equals the queried one. When a best match
  clears the floor and no record of that name has the queried date of birth, the search
  returns nothing, and the lookup agent raises its not-found error; this holds for a
  stored name equal to the queried one as for any other. Without a match at or above
  the floor the search returns nothing.
\<close>

theorem search_patient_spec:
  "(\<forall>r. search_patient scorer patients name dob = Some r \<longrightarrow>
        r \<in> set patients \<and> date_of_birth_col r = dob
        \<and> 80 \<le> scorer name (row_full_name r)
        \<and> (\<forall>q \<in> set patients. scorer name (row_full_name q) \<le> scorer name (row_full_name r)))
   \<and> (\<forall>matched score.
        extractOne scorer name (map row_full_name patients) 80 = Some (matched, score)
        \<and> (\<forall>r \<in> set patients. row_full_name r = matched \<longrightarrow> date_of_birth_col r \<noteq> dob)
        \<longrightarrow> search_patient scorer patients name dob = None
            \<and> lookup_patient scorer patients name dob = Inl PatientNotFoundError)
   \<and> (extractOne scorer name (map row_full_name patients) 80 = None \<longrightarrow>
        search_patient scorer patients name dob = None)"
proof (intro conjI allI impI)
  fix r
  assume found: "search_patient scorer patients name dob = Some r"
  then obtain matched score where
    best: "extractOne scorer name (map row_full_name patients) 80 = Some (matched, score)"
    by (auto simp: search_patient_def Let_def split: if_splits option.splits)
  with found obtain rs where
    rows: "filter (\<lambda>r. row_full_name r = matched \<and> date_of_birth_col r = dob) patients = r # rs"
    by (auto simp: search_patient_def Let_def split: if_splits list.splits)
  then have "r \<in> set (filter (\<lambda>r. row_full_name r = matched \<and> date_of_birth_col r = dob) patients)"
    by simp
  then have r: "r \<in> set patients" "row_full_name r = matched" "date_of_birth_col r = dob"
    by auto
  from extractOne_Some [OF best] r(2)
  have "80 \<le> scorer name (row_full_name r)"
    and "\<forall>c \<in> set (map row_full_name patients). scorer name c \<le> scorer name (row_full_name r)"
    by auto
  with r show "r \<in> set patients" "date_of_birth_col r = dob"
    "80 \<le> scorer name (row_full_name r)"
    "\<forall>q \<in> set patients. scorer name (row_full_name q) \<le> scorer name (row_full_name r)"
    by auto
next
  fix matched score
  assume a: "extractOne scorer name (map row_full_name patients) 80 = Some (matched, score)
        \<and> (\<forall>r \<in> set patients. row_full_name r = matched \<longrightarrow> date_of_birth_col r \<noteq> dob)"
  then have "filter (\<lambda>r. row_full_name r = matched \<and> date_of_birth_col r = dob) patients = []"
    by (auto simp: filter_empty_conv)
  with a show none: "search_patient scorer patients name dob = None"
    by (simp add: search_patient_def Let_def)
  then show "lookup_patient scorer patients name dob = Inl PatientNotFoundError"
    by (simp add: lookup_patient_def)
next
  assume "extractOne scorer name (map row_full_name patients) 80 = None"
  then show "search_patient scorer patients name dob = None"
    by (simp add: search_patient_def Let_def)
qed

lemma example_best_match:
  "extractOne example_scorer ''John Smith'' (map row_full_name example_patients) 80 =
     Some (''John Smith'', 100)"
  by (simp add: extractOne_def example_scorer_def example_patients_def row_full_name_def)

theorem search_patient_witness:
  "search_patient example_scorer example_patients ''John Smith'' ''1991-01-01'' = None
   \<and> lookup_patient example_scorer example_patients ''John Smith'' ''1991-01-01'' =
       Inl PatientNotFoundError"
proof -
  have "\<forall>r \<in> set example_patients.
          row_full_name r = ''John Smith'' \<longrightarrow> date_of_birth_col r \<noteq> ''1991-01-01''"
    by (simp add: example_patients_def)
  with example_best_match
    search_patient_spec [of example_scorer example_patients "''John Smith''" "''1991-01-01''"]
  show ?thesis by blast
qed

lemma example_search_found:
  "search_patient example_scorer example_patients ''Jon Smith'' ''1990-06-10'' =
     Some \<lparr>patient_id_col = ''P001'', first_name = ''John'', last_name = ''Smith'',
           date_of_birth_col = ''1990-06-10'', visit_history = 3\<rparr>"
  by (simp add: search_patient_def extractOne_def example_scorer_def example_patients_def
        row_full_name_def)


subsection \<open>The selection parser\<close>


lemma match_slot_other:
  "(\<forall>t. v \<noteq> JStr t) \<Longrightarrow> slots \<noteq> [] \<Longrightarrow> match_slot v slots = Inl TypeError"
  by (cases slots; cases v) simp_all




lemma valid_slot_number_iff:
  "valid_slot_number num slots \<longleftrightarrow>
     (\<exists>n. (num = Some (JInt n) \<or> num = Some (JBool (n = 1)) \<and> (n = 0 \<or> n = 1))
          \<and> 1 \<le> n \<and> n \<le> int (length slots))"
proof (cases num)
  case None
  then show ?thesis by (simp add: valid_slot_number_def)
next
  case (Some v)
  then show ?thesis
    by (cases v) (auto simp: valid_slot_number_def)
qed









subsection \<open>The confirmation of the collected information\<close>

lemma last_user_content_snoc:
  "last_user_content (ms @ [user_msg c]) = Some c"
  by (simp add: last_user_content_def user_msg_def)

lemma lower_incorrect: "strip (lower ''incorrect'') = ''incorrect''"
  by code_simp

lemma correct_in_incorrect: "sublist ''correct'' ''incorrect''"
  by code_simp

lemma affirmative_incorrect: "any_word_in affirmative_words (Some ''incorrect'')"
  using correct_in_incorrect by (simp add: any_word_in_def affirmative_words_def)

text \<open>
  C2, at the reply "incorrect": the word is in the list of negative words, but the
  affirmative list is tried first and its word "correct" is contained in "incorrect",
  so the handler moves on to the patient lookup instead of returning to the greeting.
\<close>

theorem incorrect_taken_as_confirmation:
  "information_confirmation_node (s\<lparr>messages := ms @ [user_msg ''incorrect'']\<rparr>) =
     Inr (s\<lparr>messages := ms @ [user_msg ''incorrect''],
            conversation_stage := Some Patient_lookup\<rparr>)"
  by (simp add: information_confirmation_node_def last_user_content_snoc lower_incorrect
        affirmative_incorrect)

text \<open>The three branches of the handler, for replies that hit them.\<close>

lemma information_confirmation_node_branches:
  assumes "last_user_content (messages s) = Some c" and "m = strip (lower c)" and "m \<noteq> []"
  shows "list_ex (\<lambda>w. sublist w m) affirmative_words \<Longrightarrow>
           information_confirmation_node s = Inr (s\<lparr>conversation_stage := Some Patient_lookup\<rparr>)"
    and "\<not> list_ex (\<lambda>w. sublist w m) affirmative_words \<Longrightarrow>
         list_ex (\<lambda>w. sublist w m) negative_words \<Longrightarrow>
           information_confirmation_node s =
             Inr (s\<lparr>messages := messages s @ [assistant_msg update_text],
                    conversation_stage := Some Greeting\<rparr>)"
    and "\<not> list_ex (\<lambda>w. sublist w m) affirmative_words \<Longrightarrow>
         \<not> list_ex (\<lambda>w. sublist w m) negative_words \<Longrightarrow> patient_info s = Some p \<Longrightarrow>
           information_confirmation_node s =
             Inr (s\<lparr>messages := messages s @ [assistant_msg (summary_text p)],
                    conversation_stage := Some Information_confirmation\<rparr>)"
  using assms by (simp_all add: information_confirmation_node_def any_word_in_def)

lemma negative_word_facts:
  "w \<in> set [''no'', ''wrong'', ''change'', ''update''] \<Longrightarrow>
     strip (lower w) = w \<and> w \<noteq> [] \<and> \<not> list_ex (\<lambda>a. sublist a w) affirmative_words
     \<and> list_ex (\<lambda>a. sublist a w) negative_words"
proof -
  have "list_all (\<lambda>w. strip (lower w) = w \<and> w \<noteq> []
          \<and> \<not> list_ex (\<lambda>a. sublist a w) affirmative_words
          \<and> list_ex (\<lambda>a. sublist a w) negative_words)
        [''no'', ''wrong'', ''change'', ''update'']"
    by code_simp
  then show "w \<in> set [''no'', ''wrong'', ''change'', ''update''] \<Longrightarrow>
     strip (lower w) = w \<and> w \<noteq> [] \<and> \<not> list_ex (\<lambda>a. sublist a w) affirmative_words
     \<and> list_ex (\<lambda>a. sublist a w) negative_words"
    unfolding list_all_iff by blast
qed

lemma other_negative_words_return_to_greeting:
  assumes "w \<in> set [''no'', ''wrong'', ''change'', ''update'']"
  shows "information_confirmation_node (s\<lparr>messages := ms @ [user_msg w]\<rparr>) =
     Inr (s\<lparr>messages := ms @ [user_msg w, assistant_msg update_text],
            conversation_stage := Some Greeting\<rparr>)"
  using negative_word_facts [OF assms]
    information_confirmation_node_branches(2)
      [of "s\<lparr>messages := ms @ [user_msg w]\<rparr>" w w]
  by (simp add: last_user_content_snoc)

lemma maybe_stays:
  assumes "patient_info s = Some p"
  shows "information_confirmation_node (s\<lparr>messages := ms @ [user_msg ''maybe'']\<rparr>) =
     Inr (s\<lparr>messages := ms @ [user_msg ''maybe'', assistant_msg (summary_text p)],
            conversation_stage := Some Information_confirmation\<rparr>)"
proof -
  have "strip (lower ''maybe'') = ''maybe''
        \<and> \<not> list_ex (\<lambda>a. sublist a ''maybe'') affirmative_words
        \<and> \<not> list_ex (\<lambda>a. sublist a ''maybe'') negative_words"
    by code_simp
  with assms
    information_confirmation_node_branches(3)
      [of "s\<lparr>messages := ms @ [user_msg ''maybe'']\<rparr>" "''maybe''" "''maybe''" p]
  show ?thesis
    by (simp add: last_user_content_snoc)
qed


subsection \<open>The booking writer\<close>

lemma same_second_same_timestamp:
  assumes "now1 div 1000000 = now2 div (1000000 :: int)"
  shows "strftime_YmdHMS now1 = strftime_YmdHMS now2"
proof -
  have "t div 86400000000 = (t div 1000000) div 86400" for t :: int
    using zdiv_zmult2_eq [of 86400 t 1000000] by simp
  then have "day_number now1 = day_number now2"
    using assms by (simp add: day_number_def)
  moreover have "second_of_day now1 = second_of_day now2"
    using assms by (simp add: second_of_day_def)
  ultimately show ?thesis
    by (simp add: strftime_YmdHMS_def year_def month_def day_def hour_def minute_def
          second_def)
qed

lemma book_appointment_id:
  assumes "book_appointment strptime now write_ok file pid slot is_new = Inr (new_id, file')"
  shows "new_id = ''APP'' @ strftime_YmdHMS now @ last4 pid"
  using assms
  by (auto simp: book_appointment_def Let_def split: option.splits if_splits)

lemma last4_suffix:
  assumes "pid = rest @ ending"
    and "length ending = 4 \<or> (rest = [] \<and> length ending < 4)"
  shows "last4 pid = ending"
  using assms by (auto simp: last4_def)

text \<open>
  C10. The identifier of a booking is "APP", the time of the booking to the second
  (year, month, day, hour, minute, second) and the last four characters of the patient
  identifier: the four characters that end it, or the whole identifier when it has fewer
  than four. Two bookings made within the same second for patient identifiers whose
  last four characters differ get different identifiers.
\<close>

theorem appointment_ids_differ:
  assumes "book_appointment strptime1 now1 ok1 file1 pid1 slot1 new1 = Inr (id1, file1')"
    and "book_appointment strptime2 now2 ok2 file2 pid2 slot2 new2 = Inr (id2, file2')"
    and "now1 div 1000000 = now2 div 1000000"
    and "pid1 = rest1 @ suffix1"
    and "length suffix1 = 4 \<or> (rest1 = [] \<and> length suffix1 < 4)"
    and "pid2 = rest2 @ suffix2"
    and "length suffix2 = 4 \<or> (rest2 = [] \<and> length suffix2 < 4)"
    and "suffix1 \<noteq> suffix2"
  shows "id1 = ''APP'' @ strftime_YmdHMS now1 @ suffix1
         \<and> id2 = ''APP'' @ strftime_YmdHMS now2 @ suffix2
         \<and> id1 \<noteq> id2"
  using book_appointment_id [OF assms(1)] book_appointment_id [OF assms(2)]
    same_second_same_timestamp [OF assms(3)] last4_suffix [OF assms(4) assms(5)]
    last4_suffix [OF assms(6) assms(7)] assms(8)
  by simp

lemma civil_20336: "civil_from_days 20336 = (2025, 9, 5)"
  by code_simp

lemma example_re_search:
  "re_search example_slot = Some (''Dr. Smith'', ''Monday, September 08'', ''09:00 AM'')"
  unfolding example_slot_def by code_simp

lemma example_strips:
  "strip ''Dr. Smith'' = ''Dr. Smith''"
  "strip ''Monday, September 08'' = ''Monday, September 08''"
  "strip ''09:00 AM'' = ''09:00 AM''"
  by code_simp+

lemma example_year: "str_nat (nat (year example_now)) = ''2025''"
  by (simp add: year_def day_number_def example_now_def civil_20336 str_nat.simps
        digit_char_def)

lemma example_timestamp: "strftime_YmdHMS example_now = ''20250905100000''"
  by (simp add: strftime_YmdHMS_def year_def month_def day_def day_number_def example_now_def
        civil_20336 hour_def minute_def second_def second_of_day_def pad2_def str_nat.simps
        digit_char_def)

lemma example_parsed_date:
  "strftime_Y_m_d 1757322000000000 = ''2025-09-08''"
  "strftime_H_M_S 1757322000000000 = ''09:00:00''"
  by (simp_all add: strftime_Y_m_d_def strftime_H_M_S_def year_def month_def day_def
        day_number_def civil_20339 hour_def minute_def second_def second_of_day_def pad2_def
        str_nat.simps digit_char_def)

lemma example_parse:
  assumes "str_nat (nat (year now)) = ''2025''"
  shows "parse_slot_string example_strptime now example_slot =
     Some \<lparr>parsed_doctor_name = ''Dr. Smith'', parsed_appointment_date = ''2025-09-08'',
           parsed_appointment_time = ''09:00:00''\<rparr>"
  using assms
  by (simp add: parse_slot_string_def example_re_search example_strips
        example_strptime_def example_parsed_date)

lemma example_book:
  assumes "str_nat (nat (year now)) = ''2025''"
    and "strftime_YmdHMS now = ''20250905100000''"
  shows "book_appointment example_strptime now True file pid example_slot is_new =
     Inr (''APP20250905100000'' @ last4 pid,
          Some ((case file of None \<Rightarrow> [] | Some rows \<Rightarrow> rows) @
            [\<lparr>row_appointment_id = ''APP20250905100000'' @ last4 pid, row_patient_id = pid,
              row_doctor_name = ''Dr. Smith'', appointment_date = ''2025-09-08'',
              appointment_time = ''09:00:00'', row_is_new_patient = is_new,
              status = ''Confirmed''\<rparr>]))"
  by (simp add: book_appointment_def example_parse [OF assms(1)] assms(2) Let_def)

lemma example_later:
  "str_nat (nat (year (example_now + 999999))) = ''2025''"
  "strftime_YmdHMS (example_now + 999999) = ''20250905100000''"
proof -
  have same: "(example_now + 999999) div 1000000 = example_now div 1000000"
    by (simp add: example_now_def)
  from same_second_same_timestamp [OF same] example_timestamp
  show "strftime_YmdHMS (example_now + 999999) = ''20250905100000''"
    by simp
  have "day_number (example_now + 999999) = day_number example_now"
    by (simp add: example_now_def day_number_def)
  with example_year show "str_nat (nat (year (example_now + 999999))) = ''2025''"
    by (simp add: year_def)
qed

theorem appointment_ids_differ_witness:
  "book_appointment example_strptime example_now True None ''NEW_PATIENT'' example_slot True =
     Inr (''APP20250905100000IENT'',
          Some [\<lparr>row_appointment_id = ''APP20250905100000IENT'',
                 row_patient_id = ''NEW_PATIENT'',
                 row_doctor_name = ''Dr. Smith'', appointment_date = ''2025-09-08'',
                 appointment_time = ''09:00:00'', row_is_new_patient = True,
                 status = ''Confirmed''\<rparr>])
   \<and> book_appointment example_strptime (example_now + 999999) True None ''P10042''
         example_slot False =
     Inr (''APP202509051000000042'',
          Some [\<lparr>row_appointment_id = ''APP202509051000000042'', row_patient_id = ''P10042'',
                 row_doctor_name = ''Dr. Smith'', appointment_date = ''2025-09-08'',
                 appointment_time = ''09:00:00'', row_is_new_patient = False,
                 status = ''Confirmed''\<rparr>])
   \<and> ''APP20250905100000IENT'' \<noteq> ''APP202509051000000042''"
proof -
  have b1: "book_appointment example_strptime example_now True None ''NEW_PATIENT''
         example_slot True =
     Inr (''APP20250905100000IENT'',
          Some [\<lparr>row_appointment_id = ''APP20250905100000IENT'',
                 row_patient_id = ''NEW_PATIENT'',
                 row_doctor_name = ''Dr. Smith'', appointment_date = ''2025-09-08'',
                 appointment_time = ''09:00:00'', row_is_new_patient = True,
                 status = ''Confirmed''\<rparr>])"
    by (simp add: example_book [OF example_year example_timestamp] last4_def)
  have b2: "book_appointment example_strptime (example_now + 999999) True None ''P10042''
         example_slot False =
     Inr (''APP202509051000000042'',
          Some [\<lparr>row_appointment_id = ''APP202509051000000042'', row_patient_id = ''P10042'',
                 row_doctor_name = ''Dr. Smith'', appointment_date = ''2025-09-08'',
                 appointment_time = ''09:00:00'', row_is_new_patient = False,
                 status = ''Confirmed''\<rparr>])"
    by (simp add: example_book [OF example_later] last4_def)
  have same: "example_now div 1000000 = (example_now + 999999) div 1000000"
    by (simp add: example_now_def)
  from appointment_ids_differ [OF b1 b2 same, where ?rest1.0 = "''NEW_PAT''"
      and ?suffix1.0 = "''IENT''" and ?rest2.0 = "''P1''" and ?suffix2.0 = "''0042''"] b1 b2
  show ?thesis
    by simp
qed


subsection \<open>Runs of the graph\<close>

lemma run_messages:
  "messages run0 = [user_msg ''Hi there!'']"
  "messages run1 = messages run0 @ [assistant_msg greeting_text]"
  "messages run2 = messages run1 @ [user_msg example_request]"
  "messages run3 = messages run2"
  "messages run4 = messages run3 @ [assistant_msg (summary_text example_info)]"
  "messages run5 = messages run4 @ [user_msg ''yes'']"
  "messages run6 = messages run5"
  "messages run7 = messages run6 @ [assistant_msg (welcome_text example_info)]"
  "messages run8 = messages run7 @ [assistant_msg (slots_text True example_info clinic_slots)]"
  "messages (run9 choice) = messages run8 @ [user_msg choice]"
  "messages (run10 choice slot) = messages (run9 choice)"
  by (simp_all add: run0_def run1_def run2_def run3_def run4_def run5_def run6_def run7_def
        run8_def run9_def run10_def initial_state_def)

lemma run_stages:
  "conversation_stage run0 = None"
  "conversation_stage run1 = Some Greeting"
  "conversation_stage run2 = Some Greeting"
  "conversation_stage run3 = Some Information_confirmation"
  "conversation_stage run4 = Some Information_confirmation"
  "conversation_stage run5 = Some Information_confirmation"
  "conversation_stage run6 = Some Patient_lookup"
  "conversation_stage run7 = Some Find_slots"
  "conversation_stage run8 = Some Selection_parser"
  "conversation_stage (run9 choice) = Some Selection_parser"
  "conversation_stage (run10 choice slot) = Some Confirmation"
  by (simp_all add: run0_def run1_def run2_def run3_def run4_def run5_def run6_def run7_def
        run8_def run9_def run10_def initial_state_def)

lemma run_next_node:
  "next_node run0 = Some Greeting"
  "next_node run1 = None"
  "next_node run2 = Some Greeting"
  "next_node run3 = Some Information_confirmation"
  "next_node run4 = None"
  "next_node run5 = Some Information_confirmation"
  "next_node run6 = Some Patient_lookup"
  "next_node run7 = Some Find_slots"
  "next_node run8 = None"
  "next_node (run9 choice) = Some Selection_parser"
  "next_node (run10 choice slot) = Some Confirmation"
  by (simp_all add: next_node_def route_conversation_def run_messages run_stages
        user_msg_def assistant_msg_def)

lemma step1: "greeting_node raw run0 = run1"
  by (simp add: greeting_node_def run1_def run0_def initial_state_def)

lemma example_normalized: "normalize_and_validate_patient_info example_reply = example_info"
  by (simp add: normalize_and_validate_patient_info_def example_reply_def example_info_def
        py_or_def)

lemma step3: "greeting_node example_reply run2 = run3"
proof -
  have "length (messages run2) = 3"
    by (simp add: run_messages)
  moreover have "patient_info run2 = None"
    by (simp add: run2_def run1_def run0_def initial_state_def)
  moreover have "is_patient_info_complete example_info"
    by (simp add: is_patient_info_complete_def example_info_def)
  ultimately show ?thesis
    by (simp add: greeting_node_def example_normalized store_patient_info_def run3_def)
qed

lemma example_request_words:
  "strip (lower example_request) \<noteq> []"
  "\<not> list_ex (\<lambda>w. sublist w (strip (lower example_request))) affirmative_words"
  "\<not> list_ex (\<lambda>w. sublist w (strip (lower example_request))) negative_words"
  unfolding example_request_def by code_simp+

lemma step4: "information_confirmation_node run3 = Inr run4"
proof -
  have "last_user_content (messages run3) = Some example_request"
    by (simp only: run_messages(3,4) last_user_content_snoc)
  moreover have "patient_info run3 = Some example_info"
    by (simp add: run3_def)
  ultimately show ?thesis
    using example_request_words
    by (simp add: information_confirmation_node_def any_word_in_def run4_def)
qed

lemma yes_words:
  "strip (lower ''yes'') = ''yes''" "sublist ''yes'' ''yes''"
  by code_simp+

lemma step6: "information_confirmation_node run5 = Inr run6"
proof -
  have "last_user_content (messages run5) = Some ''yes''"
    by (simp only: run_messages(6) last_user_content_snoc)
  then show ?thesis
    using yes_words
    by (simp add: information_confirmation_node_def any_word_in_def affirmative_words_def
          run6_def)
qed

lemma step7: "patient_lookup_node example_scorer example_patients run6 = Inr run7"
proof -
  have "patient_info run6 = Some example_info"
    by (simp add: run6_def run5_def run4_def run3_def)
  moreover have "lookup_patient example_scorer example_patients ''Jane Doe'' ''1985-03-15'' =
      Inl PatientNotFoundError"
    by (simp add: lookup_patient_def search_patient_def extractOne_def example_scorer_def
          example_patients_def row_full_name_def)
  ultimately show ?thesis
    by (simp add: patient_lookup_node_def example_info_def run7_def)
qed

lemma example_slot_1000:
  "formatted_slot doctor 1757325600000000 = doctor @ '' on Monday, September 08 at 10:00 AM''"
  by (simp add: formatted_slot_def strftime_A_B_d_def strftime_I_M_p_def weekday_def
        month_def day_def day_number_def civil_20339 hour_def minute_def second_of_day_def
        day_names_def month_names_def pad2_def str_nat.simps digit_char_def)

lemma short_block_starts:
  "block_starts 1757322000000000 1757325600000000 (minutes 60) = [1757322000000000]"
proof -
  have "nat ((1757325600000000 - 1757322000000000) div minutes 60) = 1"
    by (simp add: minutes_def)
  then show ?thesis
    by (simp add: block_starts_def)
qed

lemma clinic_search:
  "find_available_slots (load_booked_slots to_datetime None clinic_calendar) True example_now
     (example_now + days 14) = Some clinic_slots"
proof -
  have pos: "0 < minutes 60"
    by (simp add: minutes_def)
  have rows: "filter (\<lambda>row. example_now \<le> start_datetime row
                 \<and> start_datetime row < example_now + days 14) (df clinic_calendar) =
              df clinic_calendar"
    by (simp add: clinic_calendar_def example_now_def days_def)
  have "find_available_slots (load_booked_slots to_datetime None clinic_calendar) True
          example_now (example_now + days 14) =
        rows_loop (minutes 60) {} (df clinic_calendar) []"
    using rows
    by (simp add: find_available_slots_def load_booked_slots_def Let_def)
       (simp add: clinic_calendar_def)
  also have "\<dots> = Some ([] @ concat (map (free_slots {} (minutes 60)) (df clinic_calendar)))"
    by (rule rows_loop_eq [OF pos])
  also have "\<dots> = Some clinic_slots"
    by (simp add: clinic_calendar_def free_slots_def example_block_starts short_block_starts
          example_slot_0900 example_slot_1000 example_slot_1100 clinic_slots_def)
  finally show ?thesis .
qed

lemma step8: "find_slots_node to_datetime None clinic_calendar example_now run7 = Some (Inr run8)"
proof -
  have "is_new_patient run7 = Some True" "patient_info run7 = Some example_info"
    by (simp_all add: run7_def run6_def run5_def run4_def run3_def)
  moreover have "clinic_slots \<noteq> []"
    by (simp add: clinic_slots_def)
  ultimately show ?thesis
    by (simp add: find_slots_node_def clinic_search run8_def)
qed

lemma step10:
  "selection_parser_node [''slotNumber'' \<mapsto> JInt 1] (run9 choice) =
     Inr (run10 choice example_slot)"
  "selection_parser_node [''slotNumber'' \<mapsto> JInt 4] (run9 choice) =
     Inr (run10 choice jones_slot)"
proof -
  have slots: "available_slots (run9 choice) = Some clinic_slots"
    by (simp add: run9_def run8_def)
  have numbers: "reply_slot_number [''slotNumber'' \<mapsto> JInt 1] = Some (JInt 1)"
    "reply_slot_number [''slotNumber'' \<mapsto> JInt 4] = Some (JInt 4)"
    by (simp_all add: reply_slot_number_def json_or_def)
  have picks: "clinic_slots ! nat (1 - 1) = example_slot" "clinic_slots ! nat (4 - 1) = jones_slot"
    "length clinic_slots = 4"
    by (simp_all add: clinic_slots_def example_slot_def jones_slot_def)
  show "selection_parser_node [''slotNumber'' \<mapsto> JInt 1] (run9 choice) =
     Inr (run10 choice example_slot)"
    using slots numbers(1) picks
    by (simp add: selection_parser_node_def valid_slot_number_def run10_def)
  show "selection_parser_node [''slotNumber'' \<mapsto> JInt 4] (run9 choice) =
     Inr (run10 choice jones_slot)"
    using slots numbers(2) picks
    by (simp add: selection_parser_node_def valid_slot_number_def run10_def)
qed

lemma jones_no_match: "re_search jones_slot = None"
  unfolding jones_slot_def by code_simp

lemma run10_fields:
  "patient_id (run10 choice slot) = Some ''NEW_PATIENT''"
  "is_new_patient (run10 choice slot) = Some True"
  "chosen_slot (run10 choice slot) = Some slot"
  "patient_info (run10 choice slot) = Some example_info"
  "appointment_id (run10 choice slot) = None"
  by (simp_all add: run10_def run9_def run8_def run7_def run6_def run5_def run4_def run3_def
        run2_def run1_def run0_def initial_state_def)

lemma step11:
  "confirmation_node strptime now write_ok file (run10 ''Option 4'' jones_slot) = (run11, file)"
  by (simp add: confirmation_node_def booking_attempt_def run10_fields book_appointment_def
        parse_slot_string_def jones_no_match run11_def)

lemma reach_run8: "reach False run8"
proof -
  have "reach False run0"
    unfolding run0_def using reach.start [of "[]" "''Hi there!''"] by simp
  from reach.greeting [OF this run_next_node(1), of Map.empty]
  have "reach False run1" by (simp only: step1)
  from reach.user_turn [OF this run_next_node(2), of "messages run1" example_request]
  have "reach False run2" by (simp only: run2_def)
  from reach.greeting [OF this run_next_node(3), of example_reply]
  have "reach False run3" by (simp only: step3)
  from reach.information_confirmation [OF this run_next_node(4) step4]
  have "reach False run4" .
  from reach.user_turn [OF this run_next_node(5), of "messages run4" "''yes''"]
  have "reach False run5" by (simp only: run5_def)
  from reach.information_confirmation [OF this run_next_node(6) step6]
  have "reach False run6" .
  from reach.patient_lookup [OF this run_next_node(7) step7]
  have "reach False run7" .
  from reach.find_slots [OF this run_next_node(8) step8]
  show ?thesis .
qed

lemma reach_run10:
  "reach False (run10 choice example_slot)" "reach False (run10 choice jones_slot)"
proof -
  from reach.user_turn [OF reach_run8 run_next_node(9), of "messages run8" choice]
  have r9: "reach False (run9 choice)" by (simp only: run9_def)
  from reach.selection_parser [OF r9 run_next_node(10) step10(1)]
  show "reach False (run10 choice example_slot)" .
  from reach.selection_parser [OF r9 run_next_node(10) step10(2)]
  show "reach False (run10 choice jones_slot)" .
qed

lemma reach_run11: "reach True run11"
proof -
  have "conversation_stage run11 = Some Find_slots"
    by (simp add: run11_def booking_failed_def)
  with reach.confirmation [OF reach_run10(2) run_next_node(11)
      step11 [of example_strptime example_now True None]]
  show ?thesis by simp
qed


lemma next_node_stage:
  assumes "next_node s = Some st"
  shows "current_stage s = st" and "st \<noteq> Completed"
proof -
  from assms have "route_conversation s = Goto st \<and> st \<noteq> Completed"
    by (cases "route_conversation s" rule: router_map.cases) (auto simp: next_node_def)
  then show "current_stage s = st" and "st \<noteq> Completed"
    by (auto simp: route_conversation_def current_stage_def Let_def split: if_splits)
qed

lemma greeting_node_fields:
  "patient_id (greeting_node raw s) = patient_id s"
  "is_new_patient (greeting_node raw s) = is_new_patient s"
  "chosen_slot (greeting_node raw s) = chosen_slot s"
  "appointment_id (greeting_node raw s) = appointment_id s"
  "stage_rank (current_stage (greeting_node raw s)) \<le> 1"
  "1 \<le> stage_rank (current_stage (greeting_node raw s)) \<longrightarrow>
     patient_info (greeting_node raw s) \<noteq> None"
  by (simp_all add: greeting_node_def current_stage_def Let_def)

lemma information_confirmation_node_fields:
  assumes "information_confirmation_node s = Inr s'"
  shows "patient_info s' = patient_info s" "patient_id s' = patient_id s"
    "is_new_patient s' = is_new_patient s" "chosen_slot s' = chosen_slot s"
    "appointment_id s' = appointment_id s" "stage_rank (current_stage s') \<le> 2"
  using assms
  by (auto simp: information_confirmation_node_def current_stage_def Let_def
      split: if_splits option.splits)

lemma patient_lookup_node_fields:
  assumes "patient_lookup_node scorer patients s = Inr s'"
  shows "patient_info s' = patient_info s" "patient_id s' \<noteq> None"
    "is_new_patient s' \<noteq> None" "chosen_slot s' = chosen_slot s"
    "appointment_id s' = appointment_id s" "current_stage s' = Find_slots"
  using assms
  by (auto simp: patient_lookup_node_def current_stage_def
      split: option.splits sum.splits py_error.splits prod.splits)

lemma find_slots_node_fields:
  assumes "find_slots_node to_datetime file cal now s = Some (Inr s')"
  shows "patient_info s' = patient_info s" "patient_id s' = patient_id s"
    "is_new_patient s' = is_new_patient s" "chosen_slot s' = chosen_slot s"
    "appointment_id s' = appointment_id s"
    "current_stage s' = Selection_parser \<or> current_stage s' = Completed"
  using assms
  by (auto simp: find_slots_node_def current_stage_def Let_def
      split: option.splits if_splits)

lemma selection_parser_node_fields:
  assumes "selection_parser_node result s = Inr s'"
  shows "patient_info s' = patient_info s" "patient_id s' = patient_id s"
    "is_new_patient s' = is_new_patient s" "appointment_id s' = appointment_id s"
    "(current_stage s' = Confirmation \<and> chosen_slot s' \<noteq> None)
     \<or> (current_stage s' = Find_slots \<and> chosen_slot s' = chosen_slot s)"
  using assms
  by (auto simp: selection_parser_node_def current_stage_def Let_def
      split: option.splits if_splits sum.splits)

lemma confirmation_node_fields:
  assumes "confirmation_node strptime now write_ok file s = (s', file')"
    and "patient_info s \<noteq> None" and "appointment_id s = None"
  shows "patient_info s' = patient_info s" "patient_id s' = patient_id s"
    "is_new_patient s' = is_new_patient s" "chosen_slot s' = chosen_slot s"
    "(current_stage s' = Email_collection \<and> conversation_stage s' \<noteq> Some Find_slots)
     \<or> (current_stage s' = Find_slots \<and> conversation_stage s' = Some Find_slots
         \<and> appointment_id s' = None)"
  using assms
  by (auto simp: confirmation_node_def booking_failed_def current_stage_def Let_def
      split: option.splits sum.splits prod.splits)

lemma email_collection_node_fields:
  assumes "email_collection_node raw s = Inr s'"
  shows "patient_info s' = patient_info s" "patient_id s' = patient_id s"
    "is_new_patient s' = is_new_patient s" "chosen_slot s' = chosen_slot s"
    "appointment_id s' = appointment_id s"
    "current_stage s' = Email_collection \<or> current_stage s' = Completed"
  using assms
  by (auto simp: email_collection_node_def current_stage_def Let_def
      split: option.splits if_splits)

lemma reach_consistent: "reach f s \<Longrightarrow> consistent f s"
proof (induction rule: reach.induct)
  case (start ms txt0)
  show ?case
    by (simp add: consistent_def initial_state_def current_stage_def)
next
  case (user_turn f s ms txt0)
  then show ?case
    by (simp add: consistent_def current_stage_def)
next
  case (greeting f s raw_info)
  from next_node_stage [OF greeting(2)] have st: "current_stage s = Greeting" by simp
  with greeting(3) have "chosen_slot s = None" "appointment_id s = None"
    by (auto simp: consistent_def split: if_splits)
  with greeting_node_fields [of raw_info s] show ?case
    by (auto simp: consistent_def)
next
  case (information_confirmation f s s')
  from next_node_stage [OF information_confirmation(2)]
  have st: "current_stage s = Information_confirmation" by simp
  with information_confirmation(4)
  have "chosen_slot s = None" "appointment_id s = None" "patient_info s \<noteq> None"
    by (auto simp: consistent_def split: if_splits)
  with information_confirmation_node_fields [OF information_confirmation(3)] show ?case
    by (auto simp: consistent_def)
next
  case (patient_lookup f s scorer patients s')
  from next_node_stage [OF patient_lookup(2)]
  have st: "current_stage s = Patient_lookup" by simp
  with patient_lookup(4)
  have "chosen_slot s = None" "appointment_id s = None" "patient_info s \<noteq> None"
    by (auto simp: consistent_def split: if_splits)
  with patient_lookup_node_fields [OF patient_lookup(3)] show ?case
    by (auto simp: consistent_def)
next
  case (find_slots f s to_datetime appointments_file calendar_tool now s')
  from next_node_stage [OF find_slots(2)]
  have st: "current_stage s = Find_slots" by simp
  with find_slots(4)
  have "chosen_slot s \<noteq> None \<longrightarrow> f" "appointment_id s = None" "patient_info s \<noteq> None"
    "patient_id s \<noteq> None" "is_new_patient s \<noteq> None"
    by (auto simp: consistent_def split: if_splits)
  with find_slots_node_fields [OF find_slots(3)] show ?case
    by (auto simp: consistent_def)
next
  case (selection_parser f s result s')
  from next_node_stage [OF selection_parser(2)]
  have st: "current_stage s = Selection_parser" by simp
  with selection_parser(4)
  have "chosen_slot s \<noteq> None \<longrightarrow> f" "appointment_id s = None" "patient_info s \<noteq> None"
    "patient_id s \<noteq> None" "is_new_patient s \<noteq> None"
    by (auto simp: consistent_def split: if_splits)
  with selection_parser_node_fields [OF selection_parser(3)] show ?case
    by (auto simp: consistent_def)
next
  case (confirmation f s strptime now write_ok appointments_file s' file')
  from next_node_stage [OF confirmation(2)]
  have st: "current_stage s = Confirmation" by simp
  with confirmation(4)
  have before: "appointment_id s = None" "patient_info s \<noteq> None"
    "patient_id s \<noteq> None" "is_new_patient s \<noteq> None" "chosen_slot s \<noteq> None"
    by (auto simp: consistent_def split: if_splits)
  from confirmation_node_fields [OF confirmation(3) before(2) before(1)] before
  show ?case
    by (auto simp: consistent_def)
next
  case (email_collection f s raw_info s')
  from next_node_stage [OF email_collection(2)]
  have st: "current_stage s = Email_collection" by simp
  with email_collection(4)
  have "patient_info s \<noteq> None" "patient_id s \<noteq> None" "is_new_patient s \<noteq> None"
    by (auto simp: consistent_def split: if_splits)
  with email_collection_node_fields [OF email_collection(3)] show ?case
    by (auto simp: consistent_def)
qed


text \<open>
  C1 as stated fails: after the first greeting, a complete request, the confirmation
  "yes", the slot search and the choice of the fourth slot (a doctor whose name in the
  schedule has no "Dr. " in front, so that the booking writer cannot parse the slot),
  the confirmation handler takes its \<open>except\<close> branch and leaves the state in stage
  find\_slots with the chosen slot still set.
\<close>

theorem chosen_slot_stage_counterexample:
  "reach True run11 \<and> chosen_slot run11 = Some jones_slot
   \<and> conversation_stage run11 = Some Find_slots
   \<and> stage_rank Find_slots < stage_rank Confirmation"
  using reach_run11
  by (simp add: run11_def booking_failed_def run10_fields)

text \<open>
  C1, amended. In every state reached without the \<open>except\<close> branch of the confirmation
  handler having run, a chosen slot implies a stage at or beyond confirmation. Once that
  branch has run (it returns to find\_slots and keeps the chosen slot), a chosen slot
  implies a stage at or beyond find\_slots.
\<close>

theorem chosen_slot_stage:
  assumes "reach f s" and "chosen_slot s \<noteq> None"
  shows "(\<not> f \<longrightarrow> stage_rank Confirmation \<le> stage_rank (current_stage s))
         \<and> (f \<longrightarrow> stage_rank Find_slots \<le> stage_rank (current_stage s))"
  using reach_consistent [OF assms(1)] assms(2)
  by (auto simp: consistent_def split: if_splits)

theorem chosen_slot_stage_witness:
  "reach False (run10 ''Option 1'' example_slot)
   \<and> chosen_slot (run10 ''Option 1'' example_slot) = Some example_slot
   \<and> stage_rank Confirmation \<le> stage_rank (current_stage (run10 ''Option 1'' example_slot))"
proof -
  have chosen: "chosen_slot (run10 ''Option 1'' example_slot) \<noteq> None"
    by (simp add: run10_fields)
  from chosen_slot_stage [OF reach_run10(1) chosen] reach_run10(1) show ?thesis
    by (simp add: run10_fields)
qed

subsection \<open>The confirmation handler\<close>

text \<open>
  C9. In every reachable state in stage confirmation the patient identifier, the chosen
  slot, the new-patient flag and the patient information are set and no appointment
  identifier is. If the booking succeeds, the handler stores the new identifier, appends
  the confirmation and moves to email\_collection, and the appointments file has the
  new row. If the booking fails, whatever the error, the handler only appends the
  apology and returns to find\_slots: every other field, the appointment identifier
  among them, and the appointments file are as before. A chosen slot that the pattern
  of the booking writer does not match makes the booking fail.
\<close>

theorem confirmation_node_spec:
  assumes "reach f s" and "conversation_stage s = Some Confirmation"
  shows "\<exists>pid slot is_new p.
           patient_id s = Some pid \<and> chosen_slot s = Some slot
           \<and> is_new_patient s = Some is_new \<and> patient_info s = Some p
           \<and> appointment_id s = None
           \<and> (\<forall>new_id file'.
                 book_appointment strptime now write_ok file pid slot is_new =
                   Inr (new_id, file') \<longrightarrow>
                 confirmation_node strptime now write_ok file s =
                   (s\<lparr>appointment_id := Some new_id,
                      messages := messages s
                        @ [assistant_msg (confirmed_text new_id (Some slot) p)],
                      conversation_stage := Some Email_collection\<rparr>,
                    file'))
           \<and> (\<forall>e. book_appointment strptime now write_ok file pid slot is_new = Inl e \<longrightarrow>
                 confirmation_node strptime now write_ok file s =
                   (s\<lparr>messages := messages s @ [assistant_msg booking_error_text],
                      conversation_stage := Some Find_slots\<rparr>,
                    file)
                 \<and> appointment_id (fst (confirmation_node strptime now write_ok file s)) = None)
           \<and> (re_search slot = None \<longrightarrow>
                 book_appointment strptime now write_ok file pid slot is_new = Inl ValueError)"
proof -
  from reach_consistent [OF assms(1)] assms(2)
  obtain pid slot is_new p where
    fields: "patient_id s = Some pid" "chosen_slot s = Some slot"
      "is_new_patient s = Some is_new" "patient_info s = Some p" "appointment_id s = None"
    by (auto simp: consistent_def current_stage_def)
  have ok: "confirmation_node strptime now write_ok file s =
                   (s\<lparr>appointment_id := Some new_id,
                      messages := messages s
                        @ [assistant_msg (confirmed_text new_id (Some slot) p)],
                      conversation_stage := Some Email_collection\<rparr>,
                    file')"
    if "book_appointment strptime now write_ok file pid slot is_new = Inr (new_id, file')"
    for new_id file'
    using that fields by (simp add: confirmation_node_def booking_attempt_def)
  have failed: "confirmation_node strptime now write_ok file s =
                   (s\<lparr>messages := messages s @ [assistant_msg booking_error_text],
                      conversation_stage := Some Find_slots\<rparr>,
                    file)
                 \<and> appointment_id (fst (confirmation_node strptime now write_ok file s)) = None"
    if "book_appointment strptime now write_ok file pid slot is_new = Inl e" for e
    using that fields
    by (simp add: confirmation_node_def booking_attempt_def booking_failed_def)
  have pattern: "book_appointment strptime now write_ok file pid slot is_new = Inl ValueError"
    if "re_search slot = None"
    using that by (simp add: book_appointment_def parse_slot_string_def)
  have "patient_id s = Some pid \<and> chosen_slot s = Some slot
           \<and> is_new_patient s = Some is_new \<and> patient_info s = Some p
           \<and> appointment_id s = None
           \<and> (\<forall>new_id file'.
                 book_appointment strptime now write_ok file pid slot is_new =
                   Inr (new_id, file') \<longrightarrow>
                 confirmation_node strptime now write_ok file s =
                   (s\<lparr>appointment_id := Some new_id,
                      messages := messages s
                        @ [assistant_msg (confirmed_text new_id (Some slot) p)],
                      conversation_stage := Some Email_collection\<rparr>,
                    file'))
           \<and> (\<forall>e. book_appointment strptime now write_ok file pid slot is_new = Inl e \<longrightarrow>
                 confirmation_node strptime now write_ok file s =
                   (s\<lparr>messages := messages s @ [assistant_msg booking_error_text],
                      conversation_stage := Some Find_slots\<rparr>,
                    file)
                 \<and> appointment_id (fst (confirmation_node strptime now write_ok file s)) = None)
           \<and> (re_search slot = None \<longrightarrow>
                 book_appointment strptime now write_ok file pid slot is_new = Inl ValueError)"
    by (intro conjI allI impI fields ok failed pattern)
  then show ?thesis
    by (intro exI)
qed

lemma example_book_fails:
  "book_appointment example_strptime example_now False file pid example_slot is_new =
     Inl OSError"
  by (simp add: book_appointment_def example_parse [OF example_year] Let_def)

theorem confirmation_node_witness:
  "confirmation_node example_strptime example_now True None
       (run10 ''Option 1'' example_slot) =
     ((run10 ''Option 1'' example_slot)
        \<lparr>appointment_id := Some ''APP20250905100000IENT'',
         messages := messages (run10 ''Option 1'' example_slot)
           @ [assistant_msg
                (confirmed_text ''APP20250905100000IENT'' (Some example_slot) example_info)],
         conversation_stage := Some Email_collection\<rparr>,
      Some [\<lparr>row_appointment_id = ''APP20250905100000IENT'',
             row_patient_id = ''NEW_PATIENT'', row_doctor_name = ''Dr. Smith'',
             appointment_date = ''2025-09-08'', appointment_time = ''09:00:00'',
             row_is_new_patient = True, status = ''Confirmed''\<rparr>])
   \<and> confirmation_node example_strptime example_now False None
       (run10 ''Option 1'' example_slot) =
     ((run10 ''Option 1'' example_slot)
        \<lparr>messages := messages (run10 ''Option 1'' example_slot)
           @ [assistant_msg booking_error_text],
         conversation_stage := Some Find_slots\<rparr>,
      None)"
proof -
  let ?s = "run10 ''Option 1'' example_slot"
  have booked: "book_appointment example_strptime example_now True None ''NEW_PATIENT''
      example_slot True =
     Inr (''APP20250905100000IENT'',
          Some [\<lparr>row_appointment_id = ''APP20250905100000IENT'',
             row_patient_id = ''NEW_PATIENT'', row_doctor_name = ''Dr. Smith'',
             appointment_date = ''2025-09-08'', appointment_time = ''09:00:00'',
             row_is_new_patient = True, status = ''Confirmed''\<rparr>])"
    by (simp add: example_book [OF example_year example_timestamp] last4_def)
  from confirmation_node_spec [OF reach_run10(1) run_stages(11),
      of "''Option 1''" example_strptime example_now True None]
  have first: "confirmation_node example_strptime example_now True None ?s =
     (?s\<lparr>appointment_id := Some ''APP20250905100000IENT'',
         messages := messages ?s
           @ [assistant_msg
                (confirmed_text ''APP20250905100000IENT'' (Some example_slot) example_info)],
         conversation_stage := Some Email_collection\<rparr>,
      Some [\<lparr>row_appointment_id = ''APP20250905100000IENT'',
             row_patient_id = ''NEW_PATIENT'', row_doctor_name = ''Dr. Smith'',
             appointment_date = ''2025-09-08'', appointment_time = ''09:00:00'',
             row_is_new_patient = True, status = ''Confirmed''\<rparr>])"
    using booked by (auto simp: run10_fields)
  from confirmation_node_spec [OF reach_run10(1) run_stages(11),
      of "''Option 1''" example_strptime example_now False None]
  have "confirmation_node example_strptime example_now False None ?s =
     (?s\<lparr>messages := messages ?s @ [assistant_msg booking_error_text],
         conversation_stage := Some Find_slots\<rparr>,
      None)"
    using example_book_fails by (auto simp: run10_fields)
  with first show ?thesis by simp
qed


end
